theory Spec2Isabelle
  imports
    Main
    "HOL-Library.Word"
    "HOL-Library.Signed_Division"
    "HOL-Library.Char_ord"
    "HOL-Library.List_Lexorder"
    "HOL-Library.Multiset"
begin

unbundle bit_operations_syntax

text \<open>
  The SQLite exporter for OpenTelemetry traces: \<open>internal/transform.Spans\<close> turns the
  read-only spans of the SDK into a pdata batch (resource, scope, span), and
  \<open>ConsumeTraces\<close> writes a batch into the tables \<open>spans\<close>, \<open>events\<close> and \<open>links\<close> within one
  transaction. The functions of the repository are embedded below under their own names,
  after the parts of the Go library, the SDK and pdata that they call.
\<close>

section \<open>Go base types\<close>

text \<open>
  A Go \<open>string\<close> is a byte sequence: \<^typ>\<open>string\<close>, whose characters are bytes and whose
  order (\<open>HOL-Library.Char_ord\<close>, \<open>HOL-Library.List_Lexorder\<close>) is Go's byte-wise \<open><\<close>.
  \<open>int64\<close>, \<open>uint64\<close> and Go's 64-bit \<open>int\<close> are \<^typ>\<open>64 word\<close> (read with \<^const>\<open>sint\<close>
  where the Go type is signed), \<open>int32\<close> and \<open>uint32\<close> are \<^typ>\<open>32 word\<close>. A \<open>float64\<close> is
  its IEEE-754 bit pattern (\<open>math.Float64bits\<close>).
\<close>

type_synonym byte = "8 word"
type_synonym int64 = "64 word"
type_synonym uint64 = "64 word"
type_synonym int32 = "32 word"
type_synonym uint32 = "32 word"
type_synonym float64 = "64 word"

text \<open>
  The decimal text that \<open>strconv.FormatFloat(f, fmt, -1, 64)\<close> gives for a float is not
  modelled: every function that prints a float takes it as the parameter \<open>F\<close>, applied to the
  bits and the format byte (\<open>g\<close>, \<open>f\<close> or \<open>e\<close>). Every theorem below holds for every \<open>F\<close>.
\<close>

type_synonym FormatFloat = "float64 \<Rightarrow> char \<Rightarrow> string"

datatype error =
    Panic string
  | UnsupportedValueError string
  | ConstraintFailed string
  | DriverError string
  | Errorf string error

subsection \<open>strconv\<close>

definition digit :: "nat \<Rightarrow> char" where
  "digit n = ''0123456789'' ! n"

function FormatUint :: "nat \<Rightarrow> string" where
  "FormatUint n = (if n < 10 then [digit n] else FormatUint (n div 10) @ [digit (n mod 10)])"
  by pat_completeness auto
termination
  by (relation "measure id") auto

declare FormatUint.simps [simp del]

definition FormatInt :: "int \<Rightarrow> string" where
  "FormatInt i = (if i < 0 then CHR ''-'' # FormatUint (nat (- i)) else FormatUint (nat i))"

definition FormatBool :: "bool \<Rightarrow> string" where
  "FormatBool b = (if b then ''true'' else ''false'')"

fun Join :: "string list \<Rightarrow> string \<Rightarrow> string" where
  "Join [] sep = []"
| "Join [x] sep = x"
| "Join (x # y # xs) sep = x @ sep @ Join (y # xs) sep"

subsection \<open>math: NaN and infinities on the bits of a float64\<close>

definition float_abs :: "float64 \<Rightarrow> float64" where
  "float_abs f = f AND 0x7FFFFFFFFFFFFFFF"

definition IsInf_or_IsNaN :: "float64 \<Rightarrow> bool" where
  "IsInf_or_IsNaN f = (drop_bit 52 (float_abs f) = 0x7FF)"

subsection \<open>unicode/utf8\<close>

definition byte_of :: "char \<Rightarrow> nat" where
  "byte_of c = of_char c"

definition cont :: "char \<Rightarrow> bool" where
  "cont c = (0x80 \<le> byte_of c \<and> byte_of c \<le> 0xBF)"

text \<open>
  \<open>runeLen s\<close> is the width of the well-formed UTF-8 sequence at the head of \<open>s\<close>, and 0
  where \<open>utf8.DecodeRuneInString\<close> returns \<open>(RuneError, 1)\<close> (or the string is empty).
\<close>

fun runeLen :: "string \<Rightarrow> nat" where
  "runeLen [] = 0"
| "runeLen (c # cs) =
     (let b = byte_of c in
      if b < 0x80 then 1
      else if 0xC2 \<le> b \<and> b \<le> 0xDF then
        (case cs of c1 # _ \<Rightarrow> if cont c1 then 2 else 0 | _ \<Rightarrow> 0)
      else if 0xE0 \<le> b \<and> b \<le> 0xEF then
        (case cs of
           c1 # c2 # _ \<Rightarrow>
             if (if b = 0xE0 then 0xA0 else 0x80) \<le> byte_of c1
                \<and> byte_of c1 \<le> (if b = 0xED then 0x9F else 0xBF) \<and> cont c2
             then 3 else 0
         | _ \<Rightarrow> 0)
      else if 0xF0 \<le> b \<and> b \<le> 0xF4 then
        (case cs of
           c1 # c2 # c3 # _ \<Rightarrow>
             if (if b = 0xF0 then 0x90 else 0x80) \<le> byte_of c1
                \<and> byte_of c1 \<le> (if b = 0xF4 then 0x8F else 0xBF) \<and> cont c2 \<and> cont c3
             then 4 else 0
         | _ \<Rightarrow> 0)
      else 0)"

definition RuneError :: string where
  "RuneError = [CHR 0xEF, CHR 0xBF, CHR 0xBD]"

section \<open>encoding/json, as far as \<open>json.Marshal\<close> of a raw attribute map goes\<close>

text \<open>
  The values \<open>pcommon.Map.AsRaw\<close> yields: \<open>nil\<close>, \<open>string\<close>, \<open>int64\<close>, \<open>float64\<close>, \<open>bool\<close>,
  \<open>map[string]any\<close>, \<open>[]any\<close> and \<open>[]byte\<close>. A Go map is kept as an association list with one
  entry per key; its order carries no meaning (the encoder sorts).
\<close>

datatype any =
    AnyNil
  | AnyString string
  | AnyInt int64
  | AnyFloat float64
  | AnyBool bool
  | AnyMap "(string \<times> any) list"
  | AnySlice "any list"
  | AnyBytes "byte list"

definition hex :: "nat \<Rightarrow> char" where
  "hex n = ''0123456789abcdef'' ! n"

text \<open>
  \<open>appendString\<close> with \<open>escapeHTML\<close> set, as \<open>json.Marshal\<close> calls it (Go 1.22). The first
  argument counts the bytes still to copy from the multi-byte rune being read.
\<close>

fun appendString_from :: "nat \<Rightarrow> string \<Rightarrow> string" where
  "appendString_from k [] = []"
| "appendString_from (Suc k) (c # cs) = c # appendString_from k cs"
| "appendString_from 0 (c # cs) =
     (let b = byte_of c in
      if b < 0x80 then
        (if c = CHR ''\"'' \<or> c = CHR 0x5C then [CHR 0x5C, c]
         else if b = 0x08 then [CHR 0x5C, CHR ''b'']
         else if b = 0x0C then [CHR 0x5C, CHR ''f'']
         else if b = 0x0A then [CHR 0x5C, CHR ''n'']
         else if b = 0x0D then [CHR 0x5C, CHR ''r'']
         else if b = 0x09 then [CHR 0x5C, CHR ''t'']
         else if b < 0x20 \<or> c = CHR ''<'' \<or> c = CHR ''>'' \<or> c = CHR ''&''
           then [CHR 0x5C, CHR ''u'', CHR ''0'', CHR ''0'', hex (b div 16), hex (b mod 16)]
         else [c]) @ appendString_from 0 cs
      else
        (case runeLen (c # cs) of
           0 \<Rightarrow> [CHR 0x5C, CHR ''u'', CHR ''f'', CHR ''f'', CHR ''f'', CHR ''d'']
                 @ appendString_from 0 cs
         | Suc n \<Rightarrow>
             if b = 0xE2 \<and> map byte_of (take 2 cs) = [0x80, 0xA8]
               then [CHR 0x5C, CHR ''u'', CHR ''2'', CHR ''0'', CHR ''2'', CHR ''8'']
                    @ appendString_from 0 (drop 2 cs)
             else if b = 0xE2 \<and> map byte_of (take 2 cs) = [0x80, 0xA9]
               then [CHR 0x5C, CHR ''u'', CHR ''2'', CHR ''0'', CHR ''2'', CHR ''9'']
                    @ appendString_from 0 (drop 2 cs)
             else c # appendString_from n cs))"

definition appendString :: "string \<Rightarrow> string" where
  "appendString s = [CHR ''\"''] @ appendString_from 0 s @ [CHR ''\"'']"

text \<open>\<open>base64.StdEncoding\<close>, which the encoder applies to a \<open>[]byte\<close>.\<close>

definition encodeStd :: "nat \<Rightarrow> char" where
  "encodeStd n = ''ABCDEFGHIJKLMNOPQRSTUVWXYZabcdefghijklmnopqrstuvwxyz0123456789+/'' ! n"

fun EncodeToString :: "nat list \<Rightarrow> string" where
  "EncodeToString [] = []"
| "EncodeToString [a] =
     [encodeStd (a div 4), encodeStd ((a mod 4) * 16), CHR ''='', CHR ''='']"
| "EncodeToString [a, b] =
     [encodeStd (a div 4), encodeStd ((a mod 4) * 16 + b div 16),
      encodeStd ((b mod 16) * 4), CHR ''='']"
| "EncodeToString (a # b # c # r) =
     [encodeStd (a div 4), encodeStd ((a mod 4) * 16 + b div 16),
      encodeStd ((b mod 16) * 4 + c div 64), encodeStd (c mod 64)] @ EncodeToString r"

text \<open>
  The float encoder: NaN and the infinities are an \<open>UnsupportedValueError\<close>; otherwise format
  \<open>f\<close>, or \<open>e\<close> when the magnitude is below \<open>1e-6\<close> or at least \<open>1e21\<close>, with \<open>e-09\<close> cleaned up
  to \<open>e-9\<close>. Finite non-negative floats compare as their bit patterns do.
\<close>

definition cleanup_exp :: "string \<Rightarrow> string" where
  "cleanup_exp b =
     (let n = length b in
      if n \<ge> 4 \<and> b ! (n - 4) = CHR ''e'' \<and> b ! (n - 3) = CHR ''-'' \<and> b ! (n - 2) = CHR ''0''
      then take (n - 2) b @ [b ! (n - 1)] else b)"

definition floatEncoder :: "FormatFloat \<Rightarrow> float64 \<Rightarrow> error + string" where
  "floatEncoder F f =
     (if IsInf_or_IsNaN f then Inl (UnsupportedValueError (F f (CHR ''g'')))
      else let a = float_abs f in
        if a \<noteq> 0 \<and> (a < 0x3EB0C6F7A0B5ED8D \<or> a \<ge> 0x444B1AE4D6E2EF50)
        then Inr (cleanup_exp (F f (CHR ''e'')))
        else Inr (F f (CHR ''f'')))"

text \<open>The first error met aborts an encoding.\<close>

fun collect :: "(error + 'a) list \<Rightarrow> error + 'a list" where
  "collect [] = Inr []"
| "collect (Inl e # rs) = Inl e"
| "collect (Inr x # rs) = (case collect rs of Inl e \<Rightarrow> Inl e | Inr xs \<Rightarrow> Inr (x # xs))"

text \<open>
  \<open>json.Marshal\<close> on a raw value. The map encoder sorts the entries by key (ascending byte
  order) and then writes them in that order; \<open>Marshal_fields\<close> gives each entry's key with its
  encoding as \<open>"key":value\<close>, and \<open>Marshal_elems\<close> the encodings of a slice's elements.
  A \<open>[]byte\<close> is written in base64; \<open>AsRaw\<close> yields \<open>nil\<close> for an empty one, written \<open>null\<close>.
\<close>

fun Marshal :: "FormatFloat \<Rightarrow> any \<Rightarrow> error + string"
  and Marshal_elems :: "FormatFloat \<Rightarrow> any list \<Rightarrow> (error + string) list"
  and Marshal_fields :: "FormatFloat \<Rightarrow> (string \<times> any) list \<Rightarrow> (string \<times> (error + string)) list"
where
  "Marshal F AnyNil = Inr ''null''"
| "Marshal F (AnyString s) = Inr (appendString s)"
| "Marshal F (AnyInt i) = Inr (FormatInt (sint i))"
| "Marshal F (AnyFloat f) = floatEncoder F f"
| "Marshal F (AnyBool b) = Inr (FormatBool b)"
| "Marshal F (AnyMap kvs) =
     (case collect (map snd (sort_key fst (Marshal_fields F kvs))) of
        Inl e \<Rightarrow> Inl e
      | Inr fs \<Rightarrow> Inr (''{'' @ Join fs '','' @ ''}''))"
| "Marshal F (AnySlice vs) =
     (case collect (Marshal_elems F vs) of
        Inl e \<Rightarrow> Inl e
      | Inr es \<Rightarrow> Inr (''['' @ Join es '','' @ '']''))"
| "Marshal F (AnyBytes bs) =
     (if bs = [] then Inr ''null''
      else Inr ([CHR 0x22] @ EncodeToString (map unat bs) @ [CHR 0x22]))"
| "Marshal_elems F [] = []"
| "Marshal_elems F (v # vs) = Marshal F v # Marshal_elems F vs"
| "Marshal_fields F [] = []"
| "Marshal_fields F (kv # kvs) =
     (fst kv,
      case Marshal F (snd kv) of
        Inl e \<Rightarrow> Inl e
      | Inr s \<Rightarrow> Inr (appendString (fst kv) @ '':'' @ s)) # Marshal_fields F kvs"

section \<open>pdata: \<open>pcommon\<close>\<close>

datatype Value =
    ValueEmpty
  | ValueStr string
  | ValueInt int64
  | ValueDouble float64
  | ValueBool bool
  | ValueMap "(string \<times> Value) list"
  | ValueSlice "Value list"
  | ValueBytes "byte list"

text \<open>A \<open>pcommon.Map\<close> is an ordered list of key-value entries, in insertion order.\<close>

type_synonym Map = "(string \<times> Value) list"

text \<open>
  \<open>Map.PutStr\<close>, \<open>PutInt\<close>, \<open>PutDouble\<close>, \<open>PutBool\<close> and \<open>PutEmptySlice\<close>: the value of the first
  entry with the key is replaced where it stands, otherwise a new entry is appended.
\<close>

fun Put :: "Map \<Rightarrow> string \<Rightarrow> Value \<Rightarrow> Map" where
  "Put [] k v = [(k, v)]"
| "Put (e # m) k v = (if fst e = k then (k, v) # m else e # Put m k v)"

text \<open>Assignment \<open>rawMap[k] = v\<close> to a Go map.\<close>

fun map_assign :: "(string \<times> any) list \<Rightarrow> string \<Rightarrow> any \<Rightarrow> (string \<times> any) list" where
  "map_assign [] k v = [(k, v)]"
| "map_assign (e # m) k v = (if fst e = k then (k, v) # m else e # map_assign m k v)"

text \<open>
  \<open>Value.AsRaw\<close> and \<open>Map.AsRaw\<close>: the map is ranged over in order and each entry assigned into
  a fresh Go map, so a later entry with the same key replaces an earlier one.
\<close>

fun Value_AsRaw :: "Value \<Rightarrow> any"
  and Slice_AsRaw :: "Value list \<Rightarrow> any list"
  and Map_AsRaw_into :: "(string \<times> any) list \<Rightarrow> Map \<Rightarrow> (string \<times> any) list"
where
  "Value_AsRaw ValueEmpty = AnyNil"
| "Value_AsRaw (ValueStr s) = AnyString s"
| "Value_AsRaw (ValueInt i) = AnyInt i"
| "Value_AsRaw (ValueDouble f) = AnyFloat f"
| "Value_AsRaw (ValueBool b) = AnyBool b"
| "Value_AsRaw (ValueMap m) = AnyMap (Map_AsRaw_into [] m)"
| "Value_AsRaw (ValueSlice vs) = AnySlice (Slice_AsRaw vs)"
| "Value_AsRaw (ValueBytes bs) = AnyBytes bs"
| "Slice_AsRaw [] = []"
| "Slice_AsRaw (v # vs) = Value_AsRaw v # Slice_AsRaw vs"
| "Map_AsRaw_into rawMap [] = rawMap"
| "Map_AsRaw_into rawMap (kv # m) =
     Map_AsRaw_into (map_assign rawMap (fst kv) (Value_AsRaw (snd kv))) m"

definition Map_AsRaw :: "Map \<Rightarrow> any" where
  "Map_AsRaw m = AnyMap (Map_AsRaw_into [] m)"

section \<open>OpenTelemetry SDK: attributes, resources, spans\<close>

text \<open>\<open>attribute.Value\<close>, by its \<open>Type()\<close>; \<open>INVALID\<close> is the zero value.\<close>

datatype attribute_Value =
    INVALID
  | BOOL bool
  | INT64 int64
  | FLOAT64 float64
  | STRING string
  | BOOLSLICE "bool list"
  | INT64SLICE "int64 list"
  | FLOAT64SLICE "float64 list"
  | STRINGSLICE "string list"

record KeyValue =
  Key :: string
  Value :: attribute_Value

text \<open>
  \<open>attribute.DefaultEncoder\<close>: the entries joined by commas, each \<open>key=value\<close>, where the key
  and a string value have \<open>=\<close>, \<open>,\<close> and the backslash escaped by a backslash (rune by rune,
  an ill-formed byte becoming U+FFFD) and any other value is written by \<open>Value.Emit\<close>.
\<close>

fun copyAndEscape_from :: "nat \<Rightarrow> string \<Rightarrow> string" where
  "copyAndEscape_from k [] = []"
| "copyAndEscape_from (Suc k) (c # cs) = c # copyAndEscape_from k cs"
| "copyAndEscape_from 0 (c # cs) =
     (if c = CHR ''='' \<or> c = CHR '','' \<or> c = CHR 0x5C then CHR 0x5C # c # copyAndEscape_from 0 cs
      else if byte_of c < 0x80 then c # copyAndEscape_from 0 cs
      else (case runeLen (c # cs) of
              0 \<Rightarrow> RuneError @ copyAndEscape_from 0 cs
            | Suc n \<Rightarrow> c # copyAndEscape_from n cs))"

definition copyAndEscape :: "string \<Rightarrow> string" where
  "copyAndEscape val = copyAndEscape_from 0 val"

text \<open>\<open>fmt.Sprint\<close> of a slice: the elements between brackets, separated by spaces.\<close>

definition Sprint_slice :: "string list \<Rightarrow> string" where
  "Sprint_slice xs = ''['' @ Join xs '' '' @ '']''"

definition Emit :: "FormatFloat \<Rightarrow> attribute_Value \<Rightarrow> string" where
  "Emit F v =
     (case v of
        BOOLSLICE bs \<Rightarrow> Sprint_slice (map FormatBool bs)
      | BOOL b \<Rightarrow> FormatBool b
      | INT64SLICE is \<Rightarrow>
          (case Marshal F (AnySlice (map AnyInt is)) of
             Inl e \<Rightarrow> ''invalid: '' @ Sprint_slice (map (\<lambda>i. FormatInt (sint i)) is)
           | Inr j \<Rightarrow> j)
      | INT64 i \<Rightarrow> FormatInt (sint i)
      | FLOAT64SLICE fs \<Rightarrow>
          (case Marshal F (AnySlice (map AnyFloat fs)) of
             Inl e \<Rightarrow> ''invalid: '' @ Sprint_slice (map (\<lambda>f. F f (CHR ''g'')) fs)
           | Inr j \<Rightarrow> j)
      | FLOAT64 f \<Rightarrow> F f (CHR ''g'')
      | STRINGSLICE ss \<Rightarrow>
          (case Marshal F (AnySlice (map AnyString ss)) of
             Inl e \<Rightarrow> ''invalid: '' @ Sprint_slice ss
           | Inr j \<Rightarrow> j)
      | STRING s \<Rightarrow> s
      | INVALID \<Rightarrow> ''unknown'')"

definition Encode :: "FormatFloat \<Rightarrow> KeyValue list \<Rightarrow> string" where
  "Encode F kvs =
     Join (map (\<lambda>keyValue.
                  copyAndEscape (Key keyValue) @ ''='' @
                  (case Value keyValue of
                     STRING s \<Rightarrow> copyAndEscape s
                   | v \<Rightarrow> Emit F v)) kvs) '',''"

text \<open>
  A \<open>resource.Resource\<close> is its attribute set, which the SDK keeps sorted by key with one
  entry per key, and a schema URL. \<open>Encoded\<close> encodes the set in that order.
\<close>

record sdkResource =
  sdkResource_Attributes :: "KeyValue list"
  sdkResource_SchemaURL :: string

definition Encoded :: "FormatFloat \<Rightarrow> sdkResource \<Rightarrow> string" where
  "Encoded F res = Encode F (sdkResource_Attributes res)"

record Scope =
  Scope_Name :: string
  Scope_Version :: string
  Scope_SchemaURL :: string

text \<open>
  \<open>time.Time\<close> as Unix seconds and the nanosecond within the second (\<open>0 \<le> nsec < 10\<^sup>9\<close>).
  \<open>time.Unix\<close> normalises its nanosecond argument into that range; \<open>UnixNano\<close> wraps into
  \<open>int64\<close>; \<open>Sub\<close> saturates at the bounds of \<open>time.Duration\<close>.
\<close>

record Time =
  Time_sec :: int
  Time_nsec :: int

type_synonym Duration = int64

definition Unix :: "int \<Rightarrow> int \<Rightarrow> Time" where
  "Unix sec nsec =
     \<lparr>Time_sec = sec + nsec div 1000000000, Time_nsec = nsec mod 1000000000\<rparr>"

definition UnixNano :: "Time \<Rightarrow> int64" where
  "UnixNano t = word_of_int (Time_sec t * 1000000000 + Time_nsec t)"

definition minDuration :: int where
  "minDuration = - (2 ^ 63)"

definition maxDuration :: int where
  "maxDuration = 2 ^ 63 - 1"

definition Sub :: "Time \<Rightarrow> Time \<Rightarrow> Duration" where
  "Sub t u =
     (let d = (Time_sec t - Time_sec u) * 1000000000 + (Time_nsec t - Time_nsec u) in
      if minDuration \<le> d \<and> d \<le> maxDuration then word_of_int d
      else if d < 0 then word_of_int minDuration
      else word_of_int maxDuration)"

definition Microseconds :: "Duration \<Rightarrow> int64" where
  "Microseconds d = word_of_int (sint d sdiv 1000)"

text \<open>
  What \<open>Spans\<close> reads of a \<open>trace.SpanContext\<close>: the ids (16 and 8 bytes) and the trace state,
  a list of members whose \<open>String()\<close> is \<open>key=value\<close> joined by commas.
\<close>

record SpanContext =
  SpanContext_TraceID :: "byte list"
  SpanContext_SpanID :: "byte list"
  SpanContext_TraceState :: "(string \<times> string) list"

definition TraceState_String :: "(string \<times> string) list \<Rightarrow> string" where
  "TraceState_String ts = Join (map (\<lambda>m. fst m @ ''='' @ snd m) ts) '',''"

record sdkStatus =
  sdkStatus_Code :: uint32
  sdkStatus_Description :: string

record sdkEvent =
  sdkEvent_Name :: string
  sdkEvent_Attributes :: "KeyValue list"
  sdkEvent_DroppedAttributeCount :: int64
  sdkEvent_Time :: Time

record sdkLink =
  sdkLink_SpanContext :: SpanContext
  sdkLink_Attributes :: "KeyValue list"
  sdkLink_DroppedAttributeCount :: int64

text \<open>The methods of \<open>sdktrace.ReadOnlySpan\<close> that \<open>Spans\<close> calls.\<close>

record ReadOnlySpan =
  ros_Name :: string
  ros_SpanContext :: SpanContext
  ros_Parent :: SpanContext
  ros_SpanKind :: int64
  ros_StartTime :: Time
  ros_EndTime :: Time
  ros_Attributes :: "KeyValue list"
  ros_Links :: "sdkLink list"
  ros_Events :: "sdkEvent list"
  ros_Status :: sdkStatus
  ros_InstrumentationScope :: Scope
  ros_Resource :: sdkResource
  ros_DroppedAttributes :: int64
  ros_DroppedLinks :: int64
  ros_DroppedEvents :: int64

section \<open>pdata: \<open>ptrace\<close>\<close>

record Resource =
  Resource_Attributes :: Map
  Resource_DroppedAttributesCount :: uint32

record InstrumentationScope =
  InstrumentationScope_Name :: string
  InstrumentationScope_Version :: string
  InstrumentationScope_Attributes :: Map
  InstrumentationScope_DroppedAttributesCount :: uint32

record SpanEvent =
  SpanEvent_Timestamp :: uint64
  SpanEvent_Name :: string
  SpanEvent_Attributes :: Map
  SpanEvent_DroppedAttributesCount :: uint32

record SpanLink =
  SpanLink_TraceID :: "byte list"
  SpanLink_SpanID :: "byte list"
  SpanLink_TraceState :: string
  SpanLink_Attributes :: Map
  SpanLink_DroppedAttributesCount :: uint32

record Status =
  Status_Code :: int32
  Status_Message :: string

record Span =
  Span_TraceID :: "byte list"
  Span_SpanID :: "byte list"
  Span_ParentSpanID :: "byte list"
  Span_TraceState :: string
  Span_Name :: string
  Span_Kind :: int32
  Span_StartTimestamp :: uint64
  Span_EndTimestamp :: uint64
  Span_Status :: Status
  Span_DroppedAttributesCount :: uint32
  Span_DroppedEventsCount :: uint32
  Span_DroppedLinksCount :: uint32
  Span_Attributes :: Map
  Span_Events :: "SpanEvent list"
  Span_Links :: "SpanLink list"

record ScopeSpans =
  ScopeSpans_Scope :: InstrumentationScope
  ScopeSpans_SchemaUrl :: string
  ScopeSpans_Spans :: "Span list"

record ResourceSpans =
  ResourceSpans_Resource :: Resource
  ResourceSpans_SchemaUrl :: string
  ResourceSpans_ScopeSpans :: "ScopeSpans list"

type_synonym Traces = "ResourceSpans list"

text \<open>What \<open>AppendEmpty\<close> appends: the zero value.\<close>

definition NewResourceSpans :: ResourceSpans where
  "NewResourceSpans =
     \<lparr>ResourceSpans_Resource =
        \<lparr>Resource_Attributes = [], Resource_DroppedAttributesCount = 0\<rparr>,
      ResourceSpans_SchemaUrl = [],
      ResourceSpans_ScopeSpans = []\<rparr>"

definition NewScopeSpans :: ScopeSpans where
  "NewScopeSpans =
     \<lparr>ScopeSpans_Scope =
        \<lparr>InstrumentationScope_Name = [], InstrumentationScope_Version = [],
         InstrumentationScope_Attributes = [],
         InstrumentationScope_DroppedAttributesCount = 0\<rparr>,
      ScopeSpans_SchemaUrl = [],
      ScopeSpans_Spans = []\<rparr>"

definition NewTimestampFromTime :: "Time \<Rightarrow> uint64" where
  "NewTimestampFromTime t = UnixNano t"

definition AsTime :: "uint64 \<Rightarrow> Time" where
  "AsTime ts = Unix 0 (sint ts)"

definition StatusCodeUnset :: int32 where "StatusCodeUnset = 0"
definition StatusCodeOk :: int32 where "StatusCodeOk = 1"
definition StatusCodeError :: int32 where "StatusCodeError = 2"

text \<open>\<open>go.opentelemetry.io/otel/codes\<close>: a \<open>Code\<close> is a \<open>uint32\<close>.\<close>

definition codes_Unset :: uint32 where "codes_Unset = 0"
definition codes_Error :: uint32 where "codes_Error = 1"
definition codes_Ok :: uint32 where "codes_Ok = 2"

section \<open>\<open>internal/transform\<close>: the normalizer\<close>

subsection \<open>\<open>hash/fnv\<close>: 64-bit FNV-1a\<close>

definition offset64 :: uint64 where
  "offset64 = 14695981039346656037"

definition prime64 :: uint64 where
  "prime64 = 1099511628211"

definition fnv_Write :: "uint64 \<Rightarrow> string \<Rightarrow> uint64" where
  "fnv_Write h data = foldl (\<lambda>hash c. (hash XOR of_char c) * prime64) h data"

definition hashResource :: "FormatFloat \<Rightarrow> sdkResource \<Rightarrow> uint64" where
  "hashResource F res = fnv_Write offset64 (Encoded F res)"

definition hashScope :: "Scope \<Rightarrow> uint64" where
  "hashScope s =
     fnv_Write (fnv_Write (fnv_Write offset64 (Scope_Name s)) (Scope_SchemaURL s))
       (Scope_Version s)"

subsection \<open>\<open>transformAttributes\<close>\<close>

definition transformAttribute :: "Map \<Rightarrow> KeyValue \<Rightarrow> Map" where
  "transformAttribute to a =
     (case Value a of
        BOOL b \<Rightarrow> Put to (Key a) (ValueBool b)
      | INT64 i \<Rightarrow> Put to (Key a) (ValueInt i)
      | FLOAT64 f \<Rightarrow> Put to (Key a) (ValueDouble f)
      | STRING s \<Rightarrow> Put to (Key a) (ValueStr s)
      | BOOLSLICE raw \<Rightarrow> Put to (Key a) (ValueSlice (map ValueBool raw))
      | INT64SLICE raw \<Rightarrow> Put to (Key a) (ValueSlice (map ValueInt raw))
      | STRINGSLICE raw \<Rightarrow> Put to (Key a) (ValueSlice (map ValueStr raw))
      | FLOAT64SLICE raw \<Rightarrow> Put to (Key a) (ValueSlice (map ValueDouble raw))
      | INVALID \<Rightarrow> to)"

definition transformAttributes :: "KeyValue list \<Rightarrow> Map" where
  "transformAttributes from = foldl transformAttribute [] from"

subsection \<open>\<open>Spans\<close>\<close>

text \<open>
  The output tree only grows at the end of its slices, and \<open>resMap\<close> and \<open>scopeMap\<close> hold
  references to nodes of it. A reference to a \<open>ResourceSpans\<close> is its index in the tree; a
  reference to a \<open>ScopeSpans\<close> is the index of the \<open>ResourceSpans\<close> that holds it and its index
  there.
\<close>

record norm_state =
  rss :: Traces
  resMap :: "uint64 \<Rightarrow> nat option"
  scopeMap :: "uint64 \<Rightarrow> (nat \<times> nat) option"

text \<open>Lines 23 to 32: the resource node of the span, reused or appended.\<close>

definition lookupResource :: "FormatFloat \<Rightarrow> norm_state \<Rightarrow> ReadOnlySpan \<Rightarrow> nat \<times> norm_state" where
  "lookupResource F st s =
     (case resMap st (hashResource F (ros_Resource s)) of
        Some r \<Rightarrow> (r, st)
      | None \<Rightarrow>
          (length (rss st),
           st\<lparr>rss := rss st @ [NewResourceSpans],
              resMap := (resMap st)(hashResource F (ros_Resource s) \<mapsto> length (rss st))\<rparr>))"

text \<open>Lines 34 to 37: the dropped counter is set to 0 and the attributes are overwritten.\<close>

definition fillResource :: "ReadOnlySpan \<Rightarrow> ResourceSpans \<Rightarrow> ResourceSpans" where
  "fillResource s rs =
     rs\<lparr>ResourceSpans_Resource :=
          \<lparr>Resource_Attributes = transformAttributes (sdkResource_Attributes (ros_Resource s)),
           Resource_DroppedAttributesCount = 0\<rparr>\<rparr>"

text \<open>
  Lines 39 to 48: the scope node of the span, reused from \<open>scopeMap\<close> whatever resource it
  was created under, or appended to the span's resource node \<open>ri\<close>.
\<close>

definition lookupScope :: "norm_state \<Rightarrow> nat \<Rightarrow> ReadOnlySpan \<Rightarrow> (nat \<times> nat) \<times> norm_state" where
  "lookupScope st ri s =
     (case scopeMap st (hashScope (ros_InstrumentationScope s)) of
        Some scope \<Rightarrow> (scope, st)
      | None \<Rightarrow>
          (let n = length (ResourceSpans_ScopeSpans (rss st ! ri)) in
           ((ri, n),
            st\<lparr>rss := (rss st)[ri := (rss st ! ri)
                   \<lparr>ResourceSpans_ScopeSpans :=
                      ResourceSpans_ScopeSpans (rss st ! ri) @ [NewScopeSpans]\<rparr>],
               scopeMap := (scopeMap st)(hashScope (ros_InstrumentationScope s) \<mapsto> (ri, n))\<rparr>)))"

text \<open>Lines 60 to 70: the switch on the status code, with its panic.\<close>

definition convertCode :: "uint32 \<Rightarrow> error + int32" where
  "convertCode c =
     (if c = codes_Unset then Inr StatusCodeUnset
      else if c = codes_Ok then Inr StatusCodeOk
      else if c = codes_Error then Inr StatusCodeError
      else Inl (Panic ''unreachable''))"

definition newEvent :: "sdkEvent \<Rightarrow> SpanEvent" where
  "newEvent e =
     \<lparr>SpanEvent_Timestamp = NewTimestampFromTime (sdkEvent_Time e),
      SpanEvent_Name = sdkEvent_Name e,
      SpanEvent_Attributes = transformAttributes (sdkEvent_Attributes e),
      SpanEvent_DroppedAttributesCount = ucast (sdkEvent_DroppedAttributeCount e)\<rparr>"

definition newLink :: "sdkLink \<Rightarrow> SpanLink" where
  "newLink l =
     \<lparr>SpanLink_TraceID = SpanContext_TraceID (sdkLink_SpanContext l),
      SpanLink_SpanID = SpanContext_SpanID (sdkLink_SpanContext l),
      SpanLink_TraceState = TraceState_String (SpanContext_TraceState (sdkLink_SpanContext l)),
      SpanLink_Attributes = transformAttributes (sdkLink_Attributes l),
      SpanLink_DroppedAttributesCount = ucast (sdkLink_DroppedAttributeCount l)\<rparr>"

text \<open>Lines 51 to 97: the span node, filled from the read-only span.\<close>

definition newSpan :: "ReadOnlySpan \<Rightarrow> int32 \<Rightarrow> Span" where
  "newSpan s code =
     \<lparr>Span_TraceID = SpanContext_TraceID (ros_SpanContext s),
      Span_SpanID = SpanContext_SpanID (ros_SpanContext s),
      Span_ParentSpanID = SpanContext_SpanID (ros_Parent s),
      Span_TraceState = TraceState_String (SpanContext_TraceState (ros_SpanContext s)),
      Span_Name = ros_Name s,
      Span_Kind = ucast (ros_SpanKind s),
      Span_StartTimestamp = NewTimestampFromTime (ros_StartTime s),
      Span_EndTimestamp = NewTimestampFromTime (ros_EndTime s),
      Span_Status = \<lparr>Status_Code = code, Status_Message = sdkStatus_Description (ros_Status s)\<rparr>,
      Span_DroppedAttributesCount = ucast (ros_DroppedAttributes s),
      Span_DroppedEventsCount = ucast (ros_DroppedEvents s),
      Span_DroppedLinksCount = ucast (ros_DroppedLinks s),
      Span_Attributes = transformAttributes (ros_Attributes s),
      Span_Events = map newEvent (ros_Events s),
      Span_Links = map newLink (ros_Links s)\<rparr>"

definition appendSpan :: "Traces \<Rightarrow> nat \<times> nat \<Rightarrow> Span \<Rightarrow> Traces" where
  "appendSpan t ss span =
     (let rs = t ! fst ss; sc = ResourceSpans_ScopeSpans rs ! snd ss in
      t[fst ss := rs\<lparr>ResourceSpans_ScopeSpans :=
          (ResourceSpans_ScopeSpans rs)
            [snd ss := sc\<lparr>ScopeSpans_Spans := ScopeSpans_Spans sc @ [span]\<rparr>]\<rparr>])"

text \<open>The body of the loop over the spans, for one span.\<close>

definition Spans_body :: "FormatFloat \<Rightarrow> norm_state \<Rightarrow> ReadOnlySpan \<Rightarrow> error + norm_state" where
  "Spans_body F st s =
     (let (ri, st1) = lookupResource F st s;
          st2 = st1\<lparr>rss := (rss st1)[ri := fillResource s (rss st1 ! ri)]\<rparr>;
          (ss, st3) = lookupScope st2 ri s
      in case convertCode (sdkStatus_Code (ros_Status s)) of
           Inl e \<Rightarrow> Inl e
         | Inr code \<Rightarrow> Inr (st3\<lparr>rss := appendSpan (rss st3) ss (newSpan s code)\<rparr>))"

fun Spans_loop :: "FormatFloat \<Rightarrow> norm_state \<Rightarrow> ReadOnlySpan list \<Rightarrow> error + norm_state" where
  "Spans_loop F st [] = Inr st"
| "Spans_loop F st (s # sdl) =
     (case Spans_body F st s of
        Inl e \<Rightarrow> Inl e
      | Inr st' \<Rightarrow> Spans_loop F st' sdl)"

definition Spans :: "FormatFloat \<Rightarrow> ReadOnlySpan list \<Rightarrow> error + Traces" where
  "Spans F sdl =
     (case Spans_loop F \<lparr>rss = [], resMap = Map.empty, scopeMap = Map.empty\<rparr> sdl of
        Inl e \<Rightarrow> Inl e
      | Inr st \<Rightarrow> Inr (rss st))"

section \<open>The exporter\<close>

subsection \<open>Attribute maps as JSON, timestamps as microseconds\<close>

definition pcommonMapAsJSON :: "FormatFloat \<Rightarrow> Map \<Rightarrow> error + string" where
  "pcommonMapAsJSON F m = Marshal F (Map_AsRaw m)"

text \<open>Go's \<open>/\<close> on \<open>int64\<close> truncates towards zero: \<open>sdiv\<close>.\<close>

definition unixMicro :: "Time \<Rightarrow> int64" where
  "unixMicro t = word_of_int (sint (UnixNano t) sdiv 1000)"

subsection \<open>The store\<close>

text \<open>
  The three tables the statements insert into, a row being the arguments bound to its
  statement: a \<open>[]byte\<close> is a BLOB and \<open>nil\<close> is NULL (\<open>None\<close>), a string is TEXT, every Go
  integer is an INTEGER (its value, an \<^typ>\<open>int\<close>). \<open>json(?)\<close> leaves the compact text that
  \<open>json.Marshal\<close> wrote as it is.
\<close>

record span_row =
  spans_span_id :: "byte list"
  spans_trace_id :: "byte list"
  spans_parent_span_id :: "byte list option"
  spans_tracestate :: string
  spans_service_name :: string
  spans_duration :: int
  spans_name :: string
  spans_kind :: string
  spans_start_time :: int
  spans_end_time :: int
  spans_status_code :: int
  spans_status_description :: string
  spans_attributes :: string
  spans_dropped_attributes_count :: int
  spans_dropped_events_count :: int
  spans_dropped_links_count :: int
  spans_resource_attributes :: string
  spans_resource_dropped_attributes_count :: int
  spans_instrumentation_library_name :: string
  spans_instrumentation_library_version :: string
  spans_instrumentation_library_attributes :: string

record event_row =
  events_span_id :: "byte list"
  events_timestamp :: int
  events_name :: string
  events_attributes :: string
  events_dropped_attributes_count :: int

record link_row =
  links_parent_span_id :: "byte list"
  links_span_id :: "byte list"
  links_trace_id :: "byte list"
  links_tracestate :: string
  links_attributes :: string
  links_dropped_attributes_count :: int

text \<open>
  The \<open>sql.DB\<close> handle: the committed tables, and the connection pool as far as
  \<open>BeginTx\<close> and \<open>Begin\<close> depend on it: the limit set by \<open>SetMaxOpenConns\<close> (0 is no limit),
  the number of connections held by open transactions, and whether \<open>Close\<close> was called.
\<close>

record DB =
  DB_spans :: "span_row list"
  DB_events :: "event_row list"
  DB_links :: "link_row list"
  DB_maxOpen :: nat
  DB_numInUse :: nat
  DB_closed :: bool

text \<open>
  An open transaction \<open>sql.Tx\<close>: the tables as the transaction sees them, and, for the
  calls to the driver still to come, whether the driver fails them for a reason of its own
  (an I/O error, a full disk); no entry means no failure.
\<close>

record Tx =
  Tx_spans :: "span_row list"
  Tx_events :: "event_row list"
  Tx_links :: "link_row list"
  Tx_faults :: "bool list"

definition next_fault :: "Tx \<Rightarrow> bool \<times> Tx" where
  "next_fault tx =
     (case Tx_faults tx of
        [] \<Rightarrow> (False, tx)
      | f # fs \<Rightarrow> (f, tx\<lparr>Tx_faults := fs\<rparr>))"

text \<open>\<open>tx.PrepareContext\<close>: fails only when the driver does.\<close>

definition PrepareContext :: "Tx \<Rightarrow> error option \<times> Tx" where
  "PrepareContext tx =
     (case next_fault tx of
        (True, tx') \<Rightarrow> (Some (DriverError ''prepare''), tx')
      | (False, tx') \<Rightarrow> (None, tx'))"

text \<open>
  \<open>stmt.ExecContext\<close> for each of the three statements. The table \<open>spans\<close> has the primary
  key \<open>(span_id, trace_id)\<close> (migration \<open>20240120195122_init\<close>), so an insert of a pair that
  the table already holds fails; \<open>events\<close> and \<open>links\<close> have no key.
\<close>

definition ExecContext_insertSpanQ :: "Tx \<Rightarrow> span_row \<Rightarrow> error option \<times> Tx" where
  "ExecContext_insertSpanQ tx row =
     (case next_fault tx of
        (True, tx') \<Rightarrow> (Some (DriverError ''exec''), tx')
      | (False, tx') \<Rightarrow>
          if (spans_span_id row, spans_trace_id row)
               \<in> set (map (\<lambda>r. (spans_span_id r, spans_trace_id r)) (Tx_spans tx'))
          then (Some (ConstraintFailed ''UNIQUE constraint failed: spans.span_id, spans.trace_id''),
                tx')
          else (None, tx'\<lparr>Tx_spans := Tx_spans tx' @ [row]\<rparr>))"

definition ExecContext_insertEventQ :: "Tx \<Rightarrow> event_row \<Rightarrow> error option \<times> Tx" where
  "ExecContext_insertEventQ tx row =
     (case next_fault tx of
        (True, tx') \<Rightarrow> (Some (DriverError ''exec''), tx')
      | (False, tx') \<Rightarrow> (None, tx'\<lparr>Tx_events := Tx_events tx' @ [row]\<rparr>))"

definition ExecContext_insertLinkQ :: "Tx \<Rightarrow> link_row \<Rightarrow> error option \<times> Tx" where
  "ExecContext_insertLinkQ tx row =
     (case next_fault tx of
        (True, tx') \<Rightarrow> (Some (DriverError ''exec''), tx')
      | (False, tx') \<Rightarrow> (None, tx'\<lparr>Tx_links := Tx_links tx' @ [row]\<rparr>))"

text \<open>
  \<open>db.BeginTx\<close> and \<open>db.Begin\<close> take a connection from the pool and keep it until the
  transaction is committed or rolled back. When the pool is at its limit they wait for a
  connection to be given back.
\<close>

definition pool_exhausted :: "DB \<Rightarrow> bool" where
  "pool_exhausted db = (DB_maxOpen db > 0 \<and> DB_numInUse db \<ge> DB_maxOpen db)"

definition take_conn :: "DB \<Rightarrow> DB" where
  "take_conn db = db\<lparr>DB_numInUse := DB_numInUse db + 1\<rparr>"

text \<open>\<open>tx.Commit\<close>: the transaction's tables become the committed ones, its connection is free.\<close>

definition Commit :: "DB \<Rightarrow> Tx \<Rightarrow> DB" where
  "Commit db tx =
     db\<lparr>DB_spans := Tx_spans tx, DB_events := Tx_events tx, DB_links := Tx_links tx,
        DB_numInUse := DB_numInUse db - 1\<rparr>"

subsection \<open>\<open>ConsumeTraces\<close>\<close>

text \<open>\<open>SpanKind.String\<close> and \<open>Value.Str\<close> of pdata; \<open>SpanID.IsEmpty\<close> compares with \<open>[8]byte{}\<close>.\<close>

definition SpanKind_String :: "int32 \<Rightarrow> string" where
  "SpanKind_String sk =
     (if sk = 0 then ''Unspecified''
      else if sk = 1 then ''Internal''
      else if sk = 2 then ''Server''
      else if sk = 3 then ''Client''
      else if sk = 4 then ''Producer''
      else if sk = 5 then ''Consumer''
      else [])"

definition Value_Str :: "Value \<Rightarrow> string" where
  "Value_Str v = (case v of ValueStr s \<Rightarrow> s | _ \<Rightarrow> [])"

definition IsEmpty :: "byte list \<Rightarrow> bool" where
  "IsEmpty sid = (sid = [0, 0, 0, 0, 0, 0, 0, 0])"

text \<open>Lines 198 to 208: the service name, from the first entry with the key \<open>service.name\<close>.\<close>

fun serviceName :: "Map \<Rightarrow> string" where
  "serviceName [] = ''unknown''"
| "serviceName (kv # m) =
     (if fst kv = ''service.name''
      then (if Value_Str (snd kv) = [] then ''unknown'' else Value_Str (snd kv))
      else serviceName m)"

text \<open>Lines 225 and 237 to 270: the arguments of the span insert.\<close>

definition spanRow ::
  "string \<Rightarrow> string \<Rightarrow> string \<Rightarrow> string \<Rightarrow> ResourceSpans \<Rightarrow> ScopeSpans \<Rightarrow> Span \<Rightarrow> span_row" where
  "spanRow svc rattrs sattrs attrs resource scope span =
     \<lparr>spans_span_id = Span_SpanID span,
      spans_trace_id = Span_TraceID span,
      spans_parent_span_id =
        (if IsEmpty (Span_ParentSpanID span) then None else Some (Span_ParentSpanID span)),
      spans_tracestate = Span_TraceState span,
      spans_service_name = svc,
      spans_duration =
        sint (Microseconds (Sub (AsTime (Span_EndTimestamp span))
                                (AsTime (Span_StartTimestamp span)))),
      spans_name = Span_Name span,
      spans_kind = SpanKind_String (Span_Kind span),
      spans_start_time = sint (unixMicro (AsTime (Span_StartTimestamp span))),
      spans_end_time = sint (unixMicro (AsTime (Span_EndTimestamp span))),
      spans_status_code = sint (Status_Code (Span_Status span)),
      spans_status_description = Status_Message (Span_Status span),
      spans_attributes = attrs,
      spans_dropped_attributes_count = uint (Span_DroppedAttributesCount span),
      spans_dropped_events_count = uint (Span_DroppedEventsCount span),
      spans_dropped_links_count = uint (Span_DroppedLinksCount span),
      spans_resource_attributes = rattrs,
      spans_resource_dropped_attributes_count =
        uint (Resource_DroppedAttributesCount (ResourceSpans_Resource resource)),
      spans_instrumentation_library_name =
        InstrumentationScope_Name (ScopeSpans_Scope scope),
      spans_instrumentation_library_version =
        InstrumentationScope_Version (ScopeSpans_Scope scope),
      spans_instrumentation_library_attributes = sattrs\<rparr>"

text \<open>Lines 288 to 294 and 318 to 325: the arguments of the event and link inserts.\<close>

definition eventRow :: "byte list \<Rightarrow> string \<Rightarrow> SpanEvent \<Rightarrow> event_row" where
  "eventRow spanidbs attrs event =
     \<lparr>events_span_id = spanidbs,
      events_timestamp = sint (unixMicro (AsTime (SpanEvent_Timestamp event))),
      events_name = SpanEvent_Name event,
      events_attributes = attrs,
      events_dropped_attributes_count = uint (SpanEvent_DroppedAttributesCount event)\<rparr>"

definition linkRow :: "byte list \<Rightarrow> string \<Rightarrow> SpanLink \<Rightarrow> link_row" where
  "linkRow spanidbs attrs link =
     \<lparr>links_parent_span_id = spanidbs,
      links_span_id = SpanLink_SpanID link,
      links_trace_id = SpanLink_TraceID link,
      links_tracestate = SpanLink_TraceState link,
      links_attributes = attrs,
      links_dropped_attributes_count = uint (SpanLink_DroppedAttributesCount link)\<rparr>"

text \<open>
  The loops, innermost first. Each gives the error it returns with (\<open>None\<close> for none) and
  the transaction as it stands at that moment.
\<close>

fun insertEvents :: "FormatFloat \<Rightarrow> byte list \<Rightarrow> Tx \<Rightarrow> SpanEvent list \<Rightarrow> error option \<times> Tx" where
  "insertEvents F spanidbs tx [] = (None, tx)"
| "insertEvents F spanidbs tx (event # events) =
     (case pcommonMapAsJSON F (SpanEvent_Attributes event) of
        Inl err \<Rightarrow> (Some (Errorf ''failed to marshal event attributes as json'' err), tx)
      | Inr attrs \<Rightarrow>
          (case PrepareContext tx of
             (Some err, tx1) \<Rightarrow> (Some (Errorf ''failed to prepare event insert query'' err), tx1)
           | (None, tx1) \<Rightarrow>
               (case ExecContext_insertEventQ tx1 (eventRow spanidbs attrs event) of
                  (Some err, tx2) \<Rightarrow>
                    (Some (Errorf ''error occured while inserting event'' err), tx2)
                | (None, tx2) \<Rightarrow> insertEvents F spanidbs tx2 events)))"

fun insertLinks :: "FormatFloat \<Rightarrow> byte list \<Rightarrow> Tx \<Rightarrow> SpanLink list \<Rightarrow> error option \<times> Tx" where
  "insertLinks F spanidbs tx [] = (None, tx)"
| "insertLinks F spanidbs tx (link # links) =
     (case pcommonMapAsJSON F (SpanLink_Attributes link) of
        Inl err \<Rightarrow> (Some (Errorf ''failed to marshal link attributes as json'' err), tx)
      | Inr attrs \<Rightarrow>
          (case PrepareContext tx of
             (Some err, tx1) \<Rightarrow> (Some (Errorf ''failed to prepare link insert query'' err), tx1)
           | (None, tx1) \<Rightarrow>
               (case ExecContext_insertLinkQ tx1 (linkRow spanidbs attrs link) of
                  (Some err, tx2) \<Rightarrow>
                    (Some (Errorf ''error occured while inserting link'' err), tx2)
                | (None, tx2) \<Rightarrow> insertLinks F spanidbs tx2 links)))"

text \<open>Lines 223 to 329: one span, with its events and links.\<close>

definition insertSpan ::
  "FormatFloat \<Rightarrow> string \<Rightarrow> string \<Rightarrow> string \<Rightarrow> ResourceSpans \<Rightarrow> ScopeSpans \<Rightarrow> Tx \<Rightarrow> Span
     \<Rightarrow> error option \<times> Tx" where
  "insertSpan F svc rattrs sattrs resource scope tx span =
     (case PrepareContext tx of
        (Some err, tx1) \<Rightarrow> (Some (Errorf ''failed to prepare span insert stmt'' err), tx1)
      | (None, tx1) \<Rightarrow>
          (case pcommonMapAsJSON F (Span_Attributes span) of
             Inl err \<Rightarrow> (Some (Errorf ''failed to marshal attributes as json'' err), tx1)
           | Inr attrs \<Rightarrow>
               (case ExecContext_insertSpanQ tx1 (spanRow svc rattrs sattrs attrs resource scope span) of
                  (Some err, tx2) \<Rightarrow>
                    (Some (Errorf ''error occured while inserting span'' err), tx2)
                | (None, tx2) \<Rightarrow>
                    (case insertEvents F (Span_SpanID span) tx2 (Span_Events span) of
                       (Some err, tx3) \<Rightarrow> (Some err, tx3)
                     | (None, tx3) \<Rightarrow>
                         insertLinks F (Span_SpanID span) tx3 (Span_Links span)))))"

fun insertSpans ::
  "FormatFloat \<Rightarrow> string \<Rightarrow> string \<Rightarrow> string \<Rightarrow> ResourceSpans \<Rightarrow> ScopeSpans \<Rightarrow> Tx \<Rightarrow> Span list
     \<Rightarrow> error option \<times> Tx" where
  "insertSpans F svc rattrs sattrs resource scope tx [] = (None, tx)"
| "insertSpans F svc rattrs sattrs resource scope tx (span # spans) =
     (case insertSpan F svc rattrs sattrs resource scope tx span of
        (Some err, tx') \<Rightarrow> (Some err, tx')
      | (None, tx') \<Rightarrow> insertSpans F svc rattrs sattrs resource scope tx' spans)"

text \<open>Lines 215 to 331: the scopes of one resource.\<close>

fun insertScopes ::
  "FormatFloat \<Rightarrow> string \<Rightarrow> string \<Rightarrow> ResourceSpans \<Rightarrow> Tx \<Rightarrow> ScopeSpans list
     \<Rightarrow> error option \<times> Tx" where
  "insertScopes F svc rattrs resource tx [] = (None, tx)"
| "insertScopes F svc rattrs resource tx (scope # scopes) =
     (case pcommonMapAsJSON F (InstrumentationScope_Attributes (ScopeSpans_Scope scope)) of
        Inl err \<Rightarrow>
          (Some (Errorf ''failed to marshal instrumentation scope attributes as json'' err), tx)
      | Inr sattrs \<Rightarrow>
          (case insertSpans F svc rattrs sattrs resource scope tx (ScopeSpans_Spans scope) of
             (Some err, tx') \<Rightarrow> (Some err, tx')
           | (None, tx') \<Rightarrow> insertScopes F svc rattrs resource tx' scopes))"

text \<open>Lines 195 to 332: the resources of the batch.\<close>

fun insertResources :: "FormatFloat \<Rightarrow> Tx \<Rightarrow> ResourceSpans list \<Rightarrow> error option \<times> Tx" where
  "insertResources F tx [] = (None, tx)"
| "insertResources F tx (resource # resources) =
     (case pcommonMapAsJSON F (Resource_Attributes (ResourceSpans_Resource resource)) of
        Inl err \<Rightarrow> (Some (Errorf ''failed to marshal resource attributes as json'' err), tx)
      | Inr rattrs \<Rightarrow>
          (case insertScopes F
                  (serviceName (Resource_Attributes (ResourceSpans_Resource resource)))
                  rattrs resource tx (ResourceSpans_ScopeSpans resource) of
             (Some err, tx') \<Rightarrow> (Some err, tx')
           | (None, tx') \<Rightarrow> insertResources F tx' resources))"

text \<open>
  What a call does: it waits for ever for a connection (the context is taken as never
  cancelled), or panics, or returns an error or \<open>nil\<close> and leaves the store in a new state.
\<close>

datatype outcome =
    Blocks
  | Panics error
  | Returns "error option" DB

text \<open>
  \<open>ConsumeTraces\<close>. \<open>BeginTx\<close> fails on a closed handle and otherwise takes a connection
  (line 187). The commit is deferred at once (line 191), so it runs at every later return,
  with or without an error. \<open>e.db.Begin()\<close> (line 193) opens a second transaction that is
  never used nor finished: it takes a second connection for good, and waits for ever when
  the pool has none left. \<open>faults\<close> is the driver's behaviour during the call.
\<close>

definition ConsumeTraces :: "FormatFloat \<Rightarrow> bool list \<Rightarrow> DB \<Rightarrow> Traces \<Rightarrow> outcome" where
  "ConsumeTraces F faults db traces =
     (if DB_closed db
        then Returns (Some (Errorf ''failed to start transaction''
                              (DriverError ''sql: database is closed''))) db
      else if pool_exhausted db then Blocks
      else if pool_exhausted (take_conn db) then Blocks
      else
        (case insertResources F
                \<lparr>Tx_spans = DB_spans db, Tx_events = DB_events db, Tx_links = DB_links db,
                 Tx_faults = faults\<rparr> traces of
           (err, tx) \<Rightarrow> Returns err (Commit (take_conn (take_conn db)) tx)))"

text \<open>\<open>ExportSpans\<close>: the normalizer, then \<open>ConsumeTraces\<close>; a panic of the first ends the call.\<close>

definition ExportSpans :: "FormatFloat \<Rightarrow> bool list \<Rightarrow> DB \<Rightarrow> ReadOnlySpan list \<Rightarrow> outcome" where
  "ExportSpans F faults db spans =
     (case Spans F spans of
        Inl e \<Rightarrow> Panics e
      | Inr ss \<Rightarrow> ConsumeTraces F faults db ss)"

text \<open>\<open>newSqliteExporter\<close> (factory.go, line 70) opens the handle with one connection at most.\<close>

definition newSqliteExporter :: DB where
  "newSqliteExporter =
     \<lparr>DB_spans = [], DB_events = [], DB_links = [],
      DB_maxOpen = 1, DB_numInUse = 0, DB_closed = False\<rparr>"

text \<open>\<open>sql.Open\<close> without a limit, as the tests and \<open>NewSqliteSDKTraceExporterWithDB\<close> may use it.\<close>

definition sqlOpen :: DB where
  "sqlOpen =
     \<lparr>DB_spans = [], DB_events = [], DB_links = [],
      DB_maxOpen = 0, DB_numInUse = 0, DB_closed = False\<rparr>"

section \<open>Example inputs\<close>

text \<open>
  None of the examples holds a float, so the float formatter is never applied to them; they
  are run with this one.
\<close>

definition noFloat :: FormatFloat where
  "noFloat f fmt = []"

text \<open>A read-only span in the manner of the stub of \<open>TestTransformSpan\<close>.\<close>

definition exampleSpan :: ReadOnlySpan where
  "exampleSpan =
     \<lparr>ros_Name = ''span-stub'',
      ros_SpanContext =
        \<lparr>SpanContext_TraceID = [0, 0, 0, 0, 0, 0, 0, 1, 0, 0, 0, 0, 0, 0, 0, 1],
         SpanContext_SpanID = [0, 0, 0, 0, 0, 0, 0, 1],
         SpanContext_TraceState = [(''foo'', ''bar'')]\<rparr>,
      ros_Parent =
        \<lparr>SpanContext_TraceID = [0, 0, 0, 0, 0, 0, 0, 1, 0, 0, 0, 0, 0, 0, 0, 1],
         SpanContext_SpanID = [0, 0, 0, 0, 0, 0, 0, 0x11],
         SpanContext_TraceState = [(''foo'', ''bar'')]\<rparr>,
      ros_SpanKind = 2,
      ros_StartTime = \<lparr>Time_sec = 1000, Time_nsec = 0\<rparr>,
      ros_EndTime = \<lparr>Time_sec = 1005, Time_nsec = 0\<rparr>,
      ros_Attributes = [\<lparr>Key = ''stringkey'', Value = STRING ''stringval''\<rparr>],
      ros_Links = [],
      ros_Events =
        [\<lparr>sdkEvent_Name = ''spanevent'',
          sdkEvent_Attributes = [\<lparr>Key = ''eventstringkey'', Value = STRING ''eventstringval''\<rparr>],
          sdkEvent_DroppedAttributeCount = 4,
          sdkEvent_Time = \<lparr>Time_sec = 1500, Time_nsec = 0\<rparr>\<rparr>],
      ros_Status = \<lparr>sdkStatus_Code = 2, sdkStatus_Description = ''OK''\<rparr>,
      ros_InstrumentationScope =
        \<lparr>Scope_Name = ''test-tracer'', Scope_Version = ''0.0.1'',
         Scope_SchemaURL = ''https://opentelemetry.io/schemas/1.24.0''\<rparr>,
      ros_Resource =
        \<lparr>sdkResource_Attributes = [\<lparr>Key = ''service.name'', Value = STRING ''test-service''\<rparr>],
         sdkResource_SchemaURL = ''https://opentelemetry.io/schemas/1.24.0''\<rparr>,
      ros_DroppedAttributes = 1,
      ros_DroppedLinks = 3,
      ros_DroppedEvents = 2\<rparr>"

text \<open>The same span from a resource with another attribute set.\<close>

definition withResource :: "KeyValue list \<Rightarrow> ReadOnlySpan \<Rightarrow> ReadOnlySpan" where
  "withResource attrs s =
     s\<lparr>ros_Resource := \<lparr>sdkResource_Attributes = attrs, sdkResource_SchemaURL = []\<rparr>\<rparr>"

text \<open>The same span with another status code.\<close>

definition withCode :: "uint32 \<Rightarrow> ReadOnlySpan \<Rightarrow> ReadOnlySpan" where
  "withCode c s = s\<lparr>ros_Status := \<lparr>sdkStatus_Code = c, sdkStatus_Description = []\<rparr>\<rparr>"

text \<open>The same span under another name.\<close>

definition withName :: "string \<Rightarrow> ReadOnlySpan \<Rightarrow> ReadOnlySpan" where
  "withName n s = s\<lparr>ros_Name := n\<rparr>"

section \<open>Example batches\<close>

text \<open>
  The batch of \<open>Test_ExporterExportSpan\<close>, with \<open>now\<close> taken as 1700000000 seconds after the
  epoch: a server span with two events, and an internal child span with two events and a
  link to the first.
\<close>

definition now :: uint64 where
  "now = 1700000000000000000"

definition span1 :: Span where
  "span1 =
     \<lparr>Span_TraceID = [0, 0, 0, 0, 0, 0, 0, 0, 0, 0, 0, 0, 0, 0, 0, 1],
      Span_SpanID = [0xee, 0xbc, 0, 0, 0, 0, 0xab, 1],
      Span_ParentSpanID = [0, 0, 0, 0, 0, 0, 0, 0],
      Span_TraceState = ''rojo=00f067aa0ba902b7'',
      Span_Name = ''span1'',
      Span_Kind = 2,
      Span_StartTimestamp = now - 5000000,
      Span_EndTimestamp = now,
      Span_Status = \<lparr>Status_Code = StatusCodeOk, Status_Message = ''Ok''\<rparr>,
      Span_DroppedAttributesCount = 0,
      Span_DroppedEventsCount = 0,
      Span_DroppedLinksCount = 0,
      Span_Attributes = [(''http.method'', ValueStr ''GET''), (''http.status_code'', ValueInt 200)],
      Span_Events =
        [\<lparr>SpanEvent_Timestamp = now - 3000000, SpanEvent_Name = ''this_happened'',
          SpanEvent_Attributes = [(''value'', ValueStr ''example'')],
          SpanEvent_DroppedAttributesCount = 0\<rparr>,
         \<lparr>SpanEvent_Timestamp = now - 4000000, SpanEvent_Name = ''that_happened'',
          SpanEvent_Attributes = [(''value'', ValueStr ''example'')],
          SpanEvent_DroppedAttributesCount = 0\<rparr>],
      Span_Links = []\<rparr>"

definition span2 :: Span where
  "span2 =
     \<lparr>Span_TraceID = [0, 0, 0, 0, 0, 0, 0, 0, 0, 0, 0, 0, 0, 0, 0, 1],
      Span_SpanID = [0xee, 0xbc, 0, 0, 0, 0, 0xab, 2],
      Span_ParentSpanID = [0xee, 0xbc, 0, 0, 0, 0, 0xab, 1],
      Span_TraceState = [],
      Span_Name = ''span2'',
      Span_Kind = 1,
      Span_StartTimestamp = now - 4000000,
      Span_EndTimestamp = now - 1000000,
      Span_Status = \<lparr>Status_Code = StatusCodeOk, Status_Message = ''Ok''\<rparr>,
      Span_DroppedAttributesCount = 0,
      Span_DroppedEventsCount = 0,
      Span_DroppedLinksCount = 0,
      Span_Attributes = [(''custom.key'', ValueStr ''custom-value'')],
      Span_Events =
        [\<lparr>SpanEvent_Timestamp = now - 3000000, SpanEvent_Name = ''this_happened'',
          SpanEvent_Attributes = [(''value'', ValueStr ''example'')],
          SpanEvent_DroppedAttributesCount = 0\<rparr>,
         \<lparr>SpanEvent_Timestamp = now - 4000000, SpanEvent_Name = ''that_happened'',
          SpanEvent_Attributes = [(''value'', ValueStr ''example'')],
          SpanEvent_DroppedAttributesCount = 0\<rparr>],
      Span_Links =
        [\<lparr>SpanLink_TraceID = [0, 0, 0, 0, 0, 0, 0, 0, 0, 0, 0, 0, 0, 0, 0, 1],
          SpanLink_SpanID = [0xee, 0xbc, 0, 0, 0, 0, 0xab, 1],
          SpanLink_TraceState = [],
          SpanLink_Attributes = [(''relation'', ValueStr ''follows_from'')],
          SpanLink_DroppedAttributesCount = 0\<rparr>]\<rparr>"

definition batchOf :: "Span list \<Rightarrow> Traces" where
  "batchOf spans =
     [\<lparr>ResourceSpans_Resource =
         \<lparr>Resource_Attributes = [(''service.name'', ValueStr ''test-service'')],
          Resource_DroppedAttributesCount = 0\<rparr>,
       ResourceSpans_SchemaUrl = [],
       ResourceSpans_ScopeSpans =
         [\<lparr>ScopeSpans_Scope =
             \<lparr>InstrumentationScope_Name = ''test-scope'',
              InstrumentationScope_Version = ''v0.1.0'',
              InstrumentationScope_Attributes = [(''scope.stringkey'', ValueStr ''scope.stringval'')],
              InstrumentationScope_DroppedAttributesCount = 0\<rparr>,
           ScopeSpans_SchemaUrl = [],
           ScopeSpans_Spans = spans\<rparr>]\<rparr>]"

definition testTrace :: Traces where
  "testTrace = batchOf [span1, span2]"

text \<open>What a call left in the store, and the error it returned.\<close>

definition storeOf :: "outcome \<Rightarrow> DB" where
  "storeOf out = (case out of Returns err db \<Rightarrow> db | _ \<Rightarrow> sqlOpen)"

definition errorOf :: "outcome \<Rightarrow> error option" where
  "errorOf out = (case out of Returns err db \<Rightarrow> err | Panics e \<Rightarrow> Some e | Blocks \<Rightarrow> None)"

text \<open>A batch with one span whose timestamps are the least and the greatest \<open>int64\<close>.\<close>

definition farSpan :: Span where
  "farSpan = span1\<lparr>Span_StartTimestamp := 0x8000000000000000,
                    Span_EndTimestamp := 0x7FFFFFFFFFFFFFFF\<rparr>"

text \<open>A batch that holds the first span of the test twice.\<close>

definition dupTrace :: Traces where
  "dupTrace = batchOf [span1, span1]"

section \<open>Predicates used in the statements\<close>

definition zeroDropped :: "ResourceSpans \<Rightarrow> bool" where
  "zeroDropped rs = (Resource_DroppedAttributesCount (ResourceSpans_Resource rs) = 0)"

text \<open>The span node that \<open>Spans\<close> makes of a read-only span.\<close>

definition spanOf :: "ReadOnlySpan \<Rightarrow> Span \<Rightarrow> bool" where
  "spanOf s sp = (case convertCode (sdkStatus_Code (ros_Status s)) of
                    Inl e \<Rightarrow> False | Inr code \<Rightarrow> sp = newSpan s code)"

text \<open>
  The loop's state while every span so far had the resource fingerprint \<open>h\<close> and the scope
  fingerprint \<open>hs\<close>: one resource node, holding one scope node, holding the spans \<open>acc\<close>.
\<close>

definition grouped :: "norm_state \<Rightarrow> uint64 \<Rightarrow> uint64 \<Rightarrow> Span list \<Rightarrow> bool" where
  "grouped st h hs acc =
     (resMap st h = Some 0 \<and> scopeMap st hs = Some (0, 0) \<and> length (rss st) = 1
      \<and> length (ResourceSpans_ScopeSpans (rss st ! 0)) = 1
      \<and> ScopeSpans_Spans (ResourceSpans_ScopeSpans (rss st ! 0) ! 0) = acc)"

text \<open>
  The shape of a batch: for each resource node its attributes and, for each of its scope
  nodes, the names of the spans under it.
\<close>

definition shape :: "Traces \<Rightarrow> (Map \<times> string list list) list" where
  "shape t =
     map (\<lambda>rs. (Resource_Attributes (ResourceSpans_Resource rs),
                map (\<lambda>ss. map Span_Name (ScopeSpans_Spans ss)) (ResourceSpans_ScopeSpans rs))) t"

definition shapeOf :: "error + Traces \<Rightarrow> error + (Map \<times> string list list) list" where
  "shapeOf r = (case r of Inl e \<Rightarrow> Inl e | Inr t \<Rightarrow> Inr (shape t))"

text \<open>The row of a span, whatever the texts of the attribute maps.\<close>

definition isRowOf :: "span_row \<Rightarrow> ResourceSpans \<Rightarrow> ScopeSpans \<Rightarrow> Span \<Rightarrow> bool" where
  "isRowOf r resource scope span =
     (\<exists>svc rattrs sattrs attrs. r = spanRow svc rattrs sattrs attrs resource scope span)"

text \<open>The duration clamped to the range of \<open>time.Duration\<close>.\<close>

definition clampDuration :: "int \<Rightarrow> int" where
  "clampDuration d =
     (if d < minDuration then minDuration else if d > maxDuration then maxDuration else d)"

text \<open>
  The references held in \<open>resMap\<close> and \<open>scopeMap\<close> point at nodes of the tree: the indices
  are in range.
\<close>

definition refs_valid :: "norm_state \<Rightarrow> bool" where
  "refs_valid st =
     ((\<forall>h i. resMap st h = Some i \<longrightarrow> i < length (rss st))
      \<and> (\<forall>h i j. scopeMap st h = Some (i, j) \<longrightarrow>
             i < length (rss st) \<and> j < length (ResourceSpans_ScopeSpans (rss st ! i))))"

section \<open>Properties of the normalizer\<close>

subsection \<open>When \<open>Spans\<close> returns\<close>

lemma Spans_body_Inl:
  "Spans_body F st s = Inl e \<longleftrightarrow>
     sdkStatus_Code (ros_Status s) \<notin> {codes_Unset, codes_Ok, codes_Error}
     \<and> e = Panic ''unreachable''"
  by (cases "convertCode (sdkStatus_Code (ros_Status s))")
     (auto simp: Spans_body_def Let_def convertCode_def split: prod.splits if_splits)

lemma Spans_loop_Inl:
  "Spans_loop F st sdl = Inl e \<longleftrightarrow>
     (\<exists>s\<in>set sdl. sdkStatus_Code (ros_Status s) \<notin> {codes_Unset, codes_Ok, codes_Error})
     \<and> e = Panic ''unreachable''"
proof (induction sdl arbitrary: st)
  case Nil
  then show ?case by simp
next
  case (Cons s sdl)
  show ?case
  proof (cases "Spans_body F st s")
    case (Inl e')
    then show ?thesis using Spans_body_Inl [of F st s e'] by auto
  next
    case (Inr st')
    have ok: "sdkStatus_Code (ros_Status s) \<in> {codes_Unset, codes_Ok, codes_Error}"
    proof (rule ccontr)
      assume "\<not> ?thesis"
      then have "Spans_body F st s = Inl (Panic ''unreachable'')"
        by (simp add: Spans_body_Inl)
      with Inr show False by simp
    qed
    from Inr have "Spans_loop F st (s # sdl) = Spans_loop F st' sdl" by simp
    then show ?thesis using Cons.IH [of st'] ok by auto
  qed
qed

lemma Spans_Inl:
  "Spans F sdl = Inl e \<longleftrightarrow>
     (\<exists>s\<in>set sdl. sdkStatus_Code (ros_Status s) \<notin> {codes_Unset, codes_Ok, codes_Error})
     \<and> e = Panic ''unreachable''"
proof -
  let ?st0 = "\<lparr>rss = [], resMap = Map.empty, scopeMap = Map.empty\<rparr>"
  have "Spans F sdl = Inl e \<longleftrightarrow> Spans_loop F ?st0 sdl = Inl e"
    by (cases "Spans_loop F ?st0 sdl") (simp_all add: Spans_def)
  then show ?thesis by (simp add: Spans_loop_Inl)
qed

text \<open>
  C5, as stated, fails: \<open>Spans\<close> is not total. A span whose status code is 3, a value of
  \<open>codes.Code\<close> (a \<open>uint32\<close>) that is none of \<open>Unset\<close>, \<open>Error\<close> and \<open>Ok\<close>, takes the default branch
  of the switch, and the call panics.
\<close>

theorem C5_counterexample:
  "Spans noFloat [withCode 3 exampleSpan] = Inl (Panic ''unreachable'')"
  by (simp add: Spans_Inl withCode_def codes_Unset_def codes_Ok_def codes_Error_def)

text \<open>
  C5, amended: \<open>Spans\<close> returns a batch exactly for the inputs in which every span's status
  code is \<open>Unset\<close>, \<open>Ok\<close> or \<open>Error\<close>; on every other input it panics with \<open>unreachable\<close>.
\<close>

theorem C5_Spans_returns_iff:
  "((\<exists>t. Spans F sdl = Inr t) \<longleftrightarrow>
      (\<forall>s\<in>set sdl. sdkStatus_Code (ros_Status s) \<in> {codes_Unset, codes_Ok, codes_Error}))
   \<and> ((\<forall>t. Spans F sdl \<noteq> Inr t) \<longrightarrow> Spans F sdl = Inl (Panic ''unreachable''))"
proof -
  have "(\<exists>t. Spans F sdl = Inr t) \<longleftrightarrow> (\<forall>e. Spans F sdl \<noteq> Inl e)"
    by (cases "Spans F sdl") simp_all
  moreover have "(\<forall>t. Spans F sdl \<noteq> Inr t) \<longrightarrow> (\<exists>e. Spans F sdl = Inl e)"
    by (cases "Spans F sdl") simp_all
  ultimately show ?thesis by (auto simp: Spans_Inl)
qed

theorem C5_Spans_returns_iff_witness:
  "sdkStatus_Code (ros_Status exampleSpan) = codes_Ok
   \<and> sdkStatus_Code (ros_Status (withCode 0 exampleSpan)) = codes_Unset
   \<and> (\<exists>t. Spans noFloat [exampleSpan, withCode 0 exampleSpan] = Inr t)"
  using C5_Spans_returns_iff [of noFloat "[exampleSpan, withCode 0 exampleSpan]"]
  by (simp add: exampleSpan_def withCode_def codes_Unset_def codes_Ok_def codes_Error_def)

subsection \<open>The dropped-attributes counter of a resource node\<close>

lemma Ball_update:
  "(\<forall>x\<in>set xs. Q x) \<Longrightarrow> (i < length xs \<Longrightarrow> Q y) \<Longrightarrow> \<forall>x\<in>set (xs[i := y]). Q x"
proof (cases "i < length xs")
  case True
  assume "\<forall>x\<in>set xs. Q x" "i < length xs \<Longrightarrow> Q y"
  with True show ?thesis using set_update_subset_insert [of xs i y] by auto
next
  case False
  assume "\<forall>x\<in>set xs. Q x"
  with False show ?thesis by (simp add: list_update_beyond)
qed

lemma lookupResource_zeroDropped:
  assumes "lookupResource F st s = (ri, st1)" "\<forall>rs\<in>set (rss st). zeroDropped rs"
  shows "\<forall>rs\<in>set (rss st1). zeroDropped rs"
  using assms
  by (auto simp: lookupResource_def zeroDropped_def NewResourceSpans_def split: option.splits)

lemma lookupScope_zeroDropped:
  assumes "lookupScope st ri s = (ss, st1)" "\<forall>rs\<in>set (rss st). zeroDropped rs"
  shows "\<forall>rs\<in>set (rss st1). zeroDropped rs"
proof (cases "scopeMap st (hashScope (ros_InstrumentationScope s))")
  case None
  with assms(1) have "rss st1 = (rss st)[ri := (rss st ! ri)
      \<lparr>ResourceSpans_ScopeSpans := ResourceSpans_ScopeSpans (rss st ! ri) @ [NewScopeSpans]\<rparr>]"
    by (auto simp: lookupScope_def Let_def)
  moreover have "\<forall>x\<in>set ((rss st)[ri := (rss st ! ri)
      \<lparr>ResourceSpans_ScopeSpans := ResourceSpans_ScopeSpans (rss st ! ri) @ [NewScopeSpans]\<rparr>]).
      zeroDropped x"
    using assms(2) by (intro Ball_update) (simp_all add: zeroDropped_def)
  ultimately show ?thesis by simp
next
  case (Some a)
  with assms show ?thesis by (auto simp: lookupScope_def)
qed

lemma appendSpan_zeroDropped:
  assumes "\<forall>rs\<in>set t. zeroDropped rs"
  shows "\<forall>rs\<in>set (appendSpan t ss span). zeroDropped rs"
  unfolding appendSpan_def Let_def using assms
  by (intro Ball_update) (simp_all add: zeroDropped_def)

lemma Spans_body_zeroDropped:
  assumes "Spans_body F st s = Inr st'" "\<forall>rs\<in>set (rss st). zeroDropped rs"
  shows "\<forall>rs\<in>set (rss st'). zeroDropped rs"
proof -
  obtain ri st1 where l1: "lookupResource F st s = (ri, st1)" by (cases "lookupResource F st s")
  let ?st2 = "st1\<lparr>rss := (rss st1)[ri := fillResource s (rss st1 ! ri)]\<rparr>"
  obtain ss st3 where l2: "lookupScope ?st2 ri s = (ss, st3)" by (cases "lookupScope ?st2 ri s")
  from assms(1) l1 l2 obtain code where
    st': "st' = st3\<lparr>rss := appendSpan (rss st3) ss (newSpan s code)\<rparr>"
    by (auto simp: Spans_body_def split: sum.splits)
  have "\<forall>rs\<in>set (rss st1). zeroDropped rs"
    using lookupResource_zeroDropped [OF l1 assms(2)] .
  then have "\<forall>rs\<in>set ((rss st1)[ri := fillResource s (rss st1 ! ri)]). zeroDropped rs"
    by (intro Ball_update) (simp_all add: zeroDropped_def fillResource_def)
  then have "\<forall>rs\<in>set (rss ?st2). zeroDropped rs"
    by simp
  then have "\<forall>rs\<in>set (rss st3). zeroDropped rs"
    using lookupScope_zeroDropped [OF l2] by blast
  then show ?thesis unfolding st' using appendSpan_zeroDropped by simp
qed

lemma Spans_loop_zeroDropped:
  "Spans_loop F st sdl = Inr st' \<Longrightarrow> \<forall>rs\<in>set (rss st). zeroDropped rs
     \<Longrightarrow> \<forall>rs\<in>set (rss st'). zeroDropped rs"
proof (induction sdl arbitrary: st)
  case Nil
  then show ?case by simp
next
  case (Cons s sdl)
  then show ?case
    by (cases "Spans_body F st s") (auto dest: Spans_body_zeroDropped)
qed

lemma Spans_zeroDropped:
  "Spans F sdl = Inr t \<Longrightarrow> rs \<in> set t
     \<Longrightarrow> Resource_DroppedAttributesCount (ResourceSpans_Resource rs) = 0"
  using Spans_loop_zeroDropped [of F "\<lparr>rss = [], resMap = Map.empty, scopeMap = Map.empty\<rparr>" sdl]
  by (auto simp: Spans_def zeroDropped_def split: sum.splits)

subsection \<open>Evaluating \<open>Spans\<close> on the examples\<close>

lemmas eval_norm = Spans_def Spans_body_def lookupResource_def lookupScope_def appendSpan_def
  Let_def fillResource_def NewResourceSpans_def NewScopeSpans_def convertCode_def
  codes_Unset_def codes_Ok_def codes_Error_def newSpan_def
  transformAttributes_def transformAttribute_def shape_def shapeOf_def
  withName_def withResource_def withCode_def exampleSpan_def

lemmas eval_hash = hashResource_def Encoded_def Encode_def copyAndEscape_def byte_of_def
  Emit_def FormatBool_def fnv_Write_def offset64_def prime64_def

lemma hash_test_service:
  "hashResource F
     \<lparr>sdkResource_Attributes = [\<lparr>Key = ''service.name'', Value = STRING ''test-service''\<rparr>],
      sdkResource_SchemaURL = u\<rparr> = 12463759031553455150"
  by (simp add: eval_hash)

lemma hash_other_service:
  "hashResource F
     \<lparr>sdkResource_Attributes = [\<lparr>Key = ''service.name'', Value = STRING ''other-service''\<rparr>],
      sdkResource_SchemaURL = u\<rparr> = 4423132454344110124"
  by (simp add: eval_hash)

lemma hash_k_bool:
  "hashResource F
     \<lparr>sdkResource_Attributes = [\<lparr>Key = ''k'', Value = BOOL True\<rparr>],
      sdkResource_SchemaURL = u\<rparr> = 6986618848659629525"
  by (simp add: eval_hash)

lemma hash_k_string:
  "hashResource F
     \<lparr>sdkResource_Attributes = [\<lparr>Key = ''k'', Value = STRING ''true''\<rparr>],
      sdkResource_SchemaURL = u\<rparr> = 6986618848659629525"
  by (simp add: eval_hash)

subsection \<open>One scope table for the whole batch\<close>

text \<open>
  C2: the code does not keep the scope table per resource. Two spans \<open>A\<close> and \<open>B\<close> with the
  same scope, \<open>A\<close> from the resource \<open>service.name=test-service\<close> and \<open>B\<close> from
  \<open>service.name=other-service\<close>: \<open>B\<close> finds the scope node made for \<open>A\<close> in \<open>scopeMap\<close> and is
  appended there, under the first resource node; the second resource node is left with no
  scope node at all.
\<close>

theorem C2_scope_table_shared:
  "shapeOf (Spans noFloat
     [withName ''A'' exampleSpan,
      withName ''B''
        (withResource [\<lparr>Key = ''service.name'', Value = STRING ''other-service''\<rparr>] exampleSpan)])
   = Inr [([(''service.name'', ValueStr ''test-service'')], [[''A'', ''B'']]),
          ([(''service.name'', ValueStr ''other-service'')], [])]"
  by (simp add: eval_norm hash_test_service hash_other_service)

subsection \<open>Grouping\<close>

lemma hashResource_cong:
  "sdkResource_Attributes r = sdkResource_Attributes r' \<Longrightarrow> hashResource F r = hashResource F r'"
  by (simp add: hashResource_def Encoded_def)

lemma Spans_body_first:
  assumes "Spans_body F \<lparr>rss = [], resMap = Map.empty, scopeMap = Map.empty\<rparr> s = Inr st'"
  shows "\<exists>sp. spanOf s sp \<and>
           grouped st' (hashResource F (ros_Resource s)) (hashScope (ros_InstrumentationScope s)) [sp]"
  using assms
  by (auto simp: Spans_body_def lookupResource_def lookupScope_def appendSpan_def Let_def
        grouped_def spanOf_def NewResourceSpans_def NewScopeSpans_def fillResource_def
      split: sum.splits)

lemma Spans_body_grouped:
  assumes "Spans_body F st s = Inr st'"
    and "grouped st (hashResource F (ros_Resource s)) (hashScope (ros_InstrumentationScope s)) acc"
  shows "\<exists>sp. spanOf s sp \<and>
           grouped st' (hashResource F (ros_Resource s)) (hashScope (ros_InstrumentationScope s))
             (acc @ [sp])"
  using assms
  by (auto simp: Spans_body_def lookupResource_def lookupScope_def appendSpan_def Let_def
        grouped_def spanOf_def fillResource_def
      split: sum.splits)

lemma Spans_loop_grouped:
  assumes "Spans_loop F st sdl = Inr st'"
    and "grouped st h hs acc"
    and "\<forall>s\<in>set sdl. hashResource F (ros_Resource s) = h \<and> hashScope (ros_InstrumentationScope s) = hs"
  shows "\<exists>sps. list_all2 spanOf sdl sps \<and> grouped st' h hs (acc @ sps)"
  using assms
proof (induction sdl arbitrary: st acc)
  case Nil
  then show ?case by simp
next
  case (Cons s sdl)
  from Cons.prems(1) obtain st1 where b: "Spans_body F st s = Inr st1"
    and l: "Spans_loop F st1 sdl = Inr st'"
    by (auto split: sum.splits)
  from Cons.prems(3) have hs: "hashResource F (ros_Resource s) = h"
    "hashScope (ros_InstrumentationScope s) = hs" by auto
  from Spans_body_grouped [OF b] Cons.prems(2) hs obtain sp where
    sp: "spanOf s sp" "grouped st1 h hs (acc @ [sp])" by auto
  from Cons.IH [OF l sp(2)] Cons.prems(3) obtain sps where
    "list_all2 spanOf sdl sps" "grouped st' h hs ((acc @ [sp]) @ sps)" by auto
  with sp(1) show ?case by (intro exI [of _ "sp # sps"]) simp
qed

text \<open>
  C3: a batch of \<open>N \<ge> 1\<close> read-only spans that all have the resource attribute set \<open>ra\<close> and
  the scope \<open>sc\<close> (name, version, schema URL). The batch that \<open>Spans\<close> returns has exactly one
  resource node, with exactly one scope node, with exactly \<open>N\<close> span nodes: the nodes of the
  \<open>N\<close> spans, in their order of arrival.
\<close>

theorem C3_grouping:
  assumes "sdl \<noteq> []"
    and "\<forall>s\<in>set sdl. sdkResource_Attributes (ros_Resource s) = ra \<and> ros_InstrumentationScope s = sc"
    and "Spans F sdl = Inr t"
  shows "\<exists>rs ss. t = [rs] \<and> ResourceSpans_ScopeSpans rs = [ss]
           \<and> length (ScopeSpans_Spans ss) = length sdl
           \<and> list_all2 spanOf sdl (ScopeSpans_Spans ss)"
proof -
  let ?st0 = "\<lparr>rss = [], resMap = Map.empty, scopeMap = Map.empty\<rparr>"
  from assms(1) obtain s sdl' where sdl: "sdl = s # sdl'" by (cases sdl) auto
  from assms(3) obtain st' where l: "Spans_loop F ?st0 sdl = Inr st'" and t: "t = rss st'"
    by (auto simp: Spans_def split: sum.splits)
  from l sdl obtain st1 where b: "Spans_body F ?st0 s = Inr st1"
    and l': "Spans_loop F st1 sdl' = Inr st'"
    by (auto split: sum.splits)
  let ?h = "hashResource F (ros_Resource s)" and ?hs = "hashScope (ros_InstrumentationScope s)"
  from Spans_body_first [OF b] obtain sp where
    sp: "spanOf s sp" "grouped st1 ?h ?hs [sp]" by auto
  have same: "\<forall>s'\<in>set sdl'. hashResource F (ros_Resource s') = ?h
                \<and> hashScope (ros_InstrumentationScope s') = ?hs"
    using assms(2) sdl by (auto intro: hashResource_cong)
  from Spans_loop_grouped [OF l' sp(2) same] obtain sps where
    sps: "list_all2 spanOf sdl' sps" "grouped st' ?h ?hs ([sp] @ sps)" by auto
  from sps(2) obtain rs where rs: "rss st' = [rs]"
    by (cases "rss st'") (auto simp: grouped_def)
  from sps(2) rs obtain ss where ss: "ResourceSpans_ScopeSpans rs = [ss]"
    by (cases "ResourceSpans_ScopeSpans rs") (auto simp: grouped_def)
  from sps(2) rs ss have spans: "ScopeSpans_Spans ss = sp # sps"
    by (simp add: grouped_def)
  have "list_all2 spanOf sdl (sp # sps)" using sp(1) sps(1) sdl by simp
  then show ?thesis using t rs ss spans by (auto dest: list_all2_lengthD)
qed

theorem C3_grouping_witness:
  "shapeOf (Spans noFloat
      [withName ''A'' exampleSpan, withName ''B'' (withCode 0 exampleSpan),
       withName ''C'' exampleSpan])
     = Inr [([(''service.name'', ValueStr ''test-service'')], [[''A'', ''B'', ''C'']])]
   \<and> (\<exists>rs ss. Spans noFloat
          [withName ''A'' exampleSpan, withName ''B'' (withCode 0 exampleSpan),
           withName ''C'' exampleSpan] = Inr [rs]
        \<and> ResourceSpans_ScopeSpans rs = [ss] \<and> length (ScopeSpans_Spans ss) = 3)"
proof -
  let ?sdl = "[withName ''A'' exampleSpan, withName ''B'' (withCode 0 exampleSpan),
               withName ''C'' exampleSpan]"
  have sh: "shapeOf (Spans noFloat ?sdl)
      = Inr [([(''service.name'', ValueStr ''test-service'')], [[''A'', ''B'', ''C'']])]"
    by (simp add: eval_norm hash_test_service)
  then obtain t where t: "Spans noFloat ?sdl = Inr t"
    by (cases "Spans noFloat ?sdl") (simp_all add: shapeOf_def)
  have same: "\<forall>s\<in>set ?sdl.
      sdkResource_Attributes (ros_Resource s)
        = [\<lparr>Key = ''service.name'', Value = STRING ''test-service''\<rparr>]
      \<and> ros_InstrumentationScope s = ros_InstrumentationScope exampleSpan"
    by (simp add: withName_def withCode_def exampleSpan_def)
  from C3_grouping [OF _ same t] t sh show ?thesis by auto
qed

subsection \<open>Resource nodes and fingerprints\<close>

lemma lookupScope_resMap:
  "lookupScope st ri s = (ss, st1) \<Longrightarrow> resMap st1 = resMap st \<and> length (rss st1) = length (rss st)"
  by (auto simp: lookupScope_def Let_def split: option.splits)

lemma Spans_body_count:
  assumes "Spans_body F st s = Inr st'"
  shows "dom (resMap st') = insert (hashResource F (ros_Resource s)) (dom (resMap st))"
    and "length (rss st') =
           (if hashResource F (ros_Resource s) \<in> dom (resMap st) then length (rss st)
            else Suc (length (rss st)))"
proof -
  obtain ri st1 where l1: "lookupResource F st s = (ri, st1)" by (cases "lookupResource F st s")
  let ?st2 = "st1\<lparr>rss := (rss st1)[ri := fillResource s (rss st1 ! ri)]\<rparr>"
  obtain ss st3 where l2: "lookupScope ?st2 ri s = (ss, st3)" by (cases "lookupScope ?st2 ri s")
  from assms l1 l2 obtain code where
    st': "st' = st3\<lparr>rss := appendSpan (rss st3) ss (newSpan s code)\<rparr>"
    by (auto simp: Spans_body_def split: sum.splits)
  from lookupScope_resMap [OF l2] have 3: "resMap st3 = resMap st1" "length (rss st3) = length (rss st1)"
    by simp_all
  have 4: "resMap st' = resMap st1" "length (rss st') = length (rss st1)"
    using 3 by (simp_all add: st' appendSpan_def Let_def)
  from l1 have "dom (resMap st1) = insert (hashResource F (ros_Resource s)) (dom (resMap st))"
    by (auto simp: lookupResource_def split: option.splits)
  with 4 show "dom (resMap st') = insert (hashResource F (ros_Resource s)) (dom (resMap st))"
    by simp
  from l1 have "length (rss st1) =
           (if hashResource F (ros_Resource s) \<in> dom (resMap st) then length (rss st)
            else Suc (length (rss st)))"
    by (auto simp: lookupResource_def split: option.splits)
  with 4 show "length (rss st') =
           (if hashResource F (ros_Resource s) \<in> dom (resMap st) then length (rss st)
            else Suc (length (rss st)))"
    by simp
qed

lemma Spans_loop_count:
  assumes "Spans_loop F st sdl = Inr st'"
    and "finite (dom (resMap st))" and "length (rss st) = card (dom (resMap st))"
  shows "dom (resMap st') = dom (resMap st) \<union> (\<lambda>s. hashResource F (ros_Resource s)) ` set sdl
         \<and> length (rss st') = card (dom (resMap st'))"
  using assms
proof (induction sdl arbitrary: st)
  case Nil
  then show ?case by simp
next
  case (Cons s sdl)
  from Cons.prems(1) obtain st1 where b: "Spans_body F st s = Inr st1"
    and l: "Spans_loop F st1 sdl = Inr st'"
    by (auto split: sum.splits)
  note c = Spans_body_count [OF b]
  have f: "finite (dom (resMap st1))" using c(1) Cons.prems(2) by simp
  have n: "length (rss st1) = card (dom (resMap st1))"
    using c Cons.prems(2,3) by (simp add: insert_absorb)
  from Cons.IH [OF l f n] show ?case using c(1) by auto
qed

lemma Spans_count:
  assumes "Spans F sdl = Inr t"
  shows "length t = card ((\<lambda>s. hashResource F (ros_Resource s)) ` set sdl)"
proof -
  let ?st0 = "\<lparr>rss = [], resMap = Map.empty, scopeMap = Map.empty\<rparr>"
  from assms obtain st' where l: "Spans_loop F ?st0 sdl = Inr st'" and t: "t = rss st'"
    by (auto simp: Spans_def split: sum.splits)
  from Spans_loop_count [OF l] show ?thesis by (simp add: t)
qed

text \<open>
  C4, as stated, fails: two resources whose attribute sets differ can have the same
  fingerprint. The set \<open>{k: true}\<close> (a bool) and the set \<open>{k: "true"}\<close> (a string) are both
  encoded as \<open>k=true\<close>, so the spans \<open>A\<close> and \<open>B\<close> from them end in one resource node (which
  keeps the attributes of the later span).
\<close>

theorem C4_counterexample:
  "sdkResource_Attributes (ros_Resource (withResource [\<lparr>Key = ''k'', Value = BOOL True\<rparr>] exampleSpan))
     \<noteq> sdkResource_Attributes
         (ros_Resource (withResource [\<lparr>Key = ''k'', Value = STRING ''true''\<rparr>] exampleSpan))
   \<and> shapeOf (Spans noFloat
       [withName ''A'' (withResource [\<lparr>Key = ''k'', Value = BOOL True\<rparr>] exampleSpan),
        withName ''B'' (withResource [\<lparr>Key = ''k'', Value = STRING ''true''\<rparr>] exampleSpan)])
     = Inr [([(''k'', ValueStr ''true'')], [[''A'', ''B'']])]"
  by (simp add: eval_norm hash_k_bool hash_k_string)

text \<open>
  C4, amended: the batch that \<open>Spans\<close> returns has exactly one resource node for each
  distinct resource fingerprint (\<open>hashResource\<close>) among the spans; so two spans whose
  fingerprints differ give two distinct resource nodes, and resources with one fingerprint
  are merged.
\<close>

theorem C4_one_node_per_fingerprint:
  assumes "Spans F sdl = Inr t"
  shows "length t = card ((\<lambda>s. hashResource F (ros_Resource s)) ` set sdl)
         \<and> (\<forall>s1\<in>set sdl. \<forall>s2\<in>set sdl.
               hashResource F (ros_Resource s1) \<noteq> hashResource F (ros_Resource s2)
               \<longrightarrow> 2 \<le> length t)"
proof -
  let ?H = "(\<lambda>s. hashResource F (ros_Resource s)) ` set sdl"
  have n: "length t = card ?H" using Spans_count [OF assms] .
  have "2 \<le> card ?H" if "s1 \<in> set sdl" "s2 \<in> set sdl"
    "hashResource F (ros_Resource s1) \<noteq> hashResource F (ros_Resource s2)" for s1 s2
  proof -
    let ?P = "{hashResource F (ros_Resource s1), hashResource F (ros_Resource s2)}"
    have "?P \<subseteq> ?H" using that by auto
    then have "card ?P \<le> card ?H" by (intro card_mono) simp_all
    with that(3) show ?thesis by simp
  qed
  with n show ?thesis by auto
qed


theorem C4_one_node_per_fingerprint_witness:
  "hashResource noFloat (ros_Resource exampleSpan)
     \<noteq> hashResource noFloat
         (ros_Resource (withResource [\<lparr>Key = ''service.name'', Value = STRING ''other-service''\<rparr>]
            exampleSpan))
   \<and> (\<exists>t. Spans noFloat
         [exampleSpan,
          withResource [\<lparr>Key = ''service.name'', Value = STRING ''other-service''\<rparr>] exampleSpan]
         = Inr t \<and> length t = 2)"
proof -
  let ?B = "withResource [\<lparr>Key = ''service.name'', Value = STRING ''other-service''\<rparr>] exampleSpan"
  have ne: "hashResource noFloat (ros_Resource exampleSpan) \<noteq> hashResource noFloat (ros_Resource ?B)"
    by (simp add: exampleSpan_def withResource_def hash_test_service hash_other_service)
  have "\<exists>t. Spans noFloat [exampleSpan, ?B] = Inr t"
    by (cases "Spans noFloat [exampleSpan, ?B]")
       (simp_all add: Spans_Inl exampleSpan_def withResource_def codes_Unset_def codes_Ok_def
          codes_Error_def)
  then obtain t where t: "Spans noFloat [exampleSpan, ?B] = Inr t" by blast
  have "card {hashResource noFloat (ros_Resource exampleSpan), hashResource noFloat (ros_Resource ?B)}
          = 2"
    using ne by simp
  with C4_one_node_per_fingerprint [OF t] have "length t = 2" by simp
  with ne t show ?thesis by blast
qed

subsection \<open>The references of the lookup tables stay inside the tree\<close>

text \<open>
  So the model never reads a list out of range, as the code never follows a dangling
  reference.
\<close>

lemma refs_valid_update:
  assumes v: "refs_valid st"
    and r: "resMap st' = resMap st" and s: "scopeMap st' = scopeMap st"
    and t: "rss st' = (rss st)[k := y]"
    and y: "k < length (rss st) \<Longrightarrow>
              length (ResourceSpans_ScopeSpans (rss st ! k)) \<le> length (ResourceSpans_ScopeSpans y)"
  shows "refs_valid st'"
  unfolding refs_valid_def
proof (intro conjI allI impI)
  fix h i assume "resMap st' h = Some i"
  with v r show "i < length (rss st')" by (simp add: refs_valid_def t)
next
  fix h i j assume "scopeMap st' h = Some (i, j)"
  with v s have i: "i < length (rss st)"
    and j: "j < length (ResourceSpans_ScopeSpans (rss st ! i))"
    by (auto simp: refs_valid_def)
  from i show "i < length (rss st')" by (simp add: t)
  show "j < length (ResourceSpans_ScopeSpans (rss st' ! i))"
  proof (cases "i = k")
    case True
    with i j y show ?thesis by (simp add: t)
  next
    case False
    with j show ?thesis by (simp add: t)
  qed
qed

lemma lookupResource_refs_valid:
  assumes "refs_valid st" "lookupResource F st s = (ri, st1)"
  shows "refs_valid st1 \<and> ri < length (rss st1)"
proof (cases "resMap st (hashResource F (ros_Resource s))")
  case (Some r)
  with assms show ?thesis by (auto simp: lookupResource_def refs_valid_def)
next
  case None
  with assms(2) have st1: "rss st1 = rss st @ [NewResourceSpans]"
    "resMap st1 = (resMap st)(hashResource F (ros_Resource s) \<mapsto> length (rss st))"
    "scopeMap st1 = scopeMap st" "ri = length (rss st)"
    by (auto simp: lookupResource_def)
  have "refs_valid st1"
    unfolding refs_valid_def
  proof (intro conjI allI impI)
    fix h i assume "resMap st1 h = Some i"
    with assms(1) show "i < length (rss st1)"
      by (auto simp: st1 refs_valid_def less_Suc_eq split: if_splits)
  next
    fix h i j assume "scopeMap st1 h = Some (i, j)"
    with assms(1) have "i < length (rss st)" "j < length (ResourceSpans_ScopeSpans (rss st ! i))"
      by (auto simp: st1 refs_valid_def)
    then show "i < length (rss st1)" "j < length (ResourceSpans_ScopeSpans (rss st1 ! i))"
      by (simp_all add: st1 nth_append)
  qed
  then show ?thesis by (simp add: st1)
qed

lemma lookupScope_refs_valid:
  assumes "refs_valid st" "ri < length (rss st)" "lookupScope st ri s = (ss, st1)"
  shows "refs_valid st1"
proof (cases "scopeMap st (hashScope (ros_InstrumentationScope s))")
  case (Some a)
  with assms show ?thesis by (simp add: lookupScope_def)
next
  case None
  let ?n = "length (ResourceSpans_ScopeSpans (rss st ! ri))"
  let ?y = "(rss st ! ri)\<lparr>ResourceSpans_ScopeSpans :=
              ResourceSpans_ScopeSpans (rss st ! ri) @ [NewScopeSpans]\<rparr>"
  from None assms(3) have st1: "rss st1 = (rss st)[ri := ?y]" "resMap st1 = resMap st"
    "scopeMap st1 = (scopeMap st)(hashScope (ros_InstrumentationScope s) \<mapsto> (ri, ?n))"
    by (auto simp: lookupScope_def Let_def)
  let ?mid = "st\<lparr>rss := (rss st)[ri := ?y]\<rparr>"
  have mid: "refs_valid ?mid"
  proof (rule refs_valid_update [OF assms(1)])
    show "rss ?mid = (rss st)[ri := ?y]" by simp
    show "length (ResourceSpans_ScopeSpans (rss st ! ri)) \<le> length (ResourceSpans_ScopeSpans ?y)"
      by simp
  qed simp_all
  show ?thesis
    unfolding refs_valid_def
  proof (intro conjI allI impI)
    fix h i assume "resMap st1 h = Some i"
    with mid show "i < length (rss st1)" by (simp add: st1 refs_valid_def)
  next
    fix h i j assume a: "scopeMap st1 h = Some (i, j)"
    show "i < length (rss st1)" "j < length (ResourceSpans_ScopeSpans (rss st1 ! i))"
    proof -
      have "i < length (rss st1) \<and> j < length (ResourceSpans_ScopeSpans (rss st1 ! i))"
      proof (cases "h = hashScope (ros_InstrumentationScope s)")
        case True
        with a have "i = ri" "j = ?n" by (auto simp: st1)
        with assms(2) show ?thesis by (simp add: st1)
      next
        case False
        with a have "scopeMap ?mid h = Some (i, j)" by (simp add: st1)
        with mid show ?thesis by (simp add: refs_valid_def st1)
      qed
      then show "i < length (rss st1)" "j < length (ResourceSpans_ScopeSpans (rss st1 ! i))"
        by simp_all
    qed
  qed
qed

lemma Spans_body_refs_valid:
  assumes "refs_valid st" "Spans_body F st s = Inr st'"
  shows "refs_valid st'"
proof -
  obtain ri st1 where l1: "lookupResource F st s = (ri, st1)" by (cases "lookupResource F st s")
  let ?st2 = "st1\<lparr>rss := (rss st1)[ri := fillResource s (rss st1 ! ri)]\<rparr>"
  obtain ss st3 where l2: "lookupScope ?st2 ri s = (ss, st3)" by (cases "lookupScope ?st2 ri s")
  from assms(2) l1 l2 obtain code where
    st': "st' = st3\<lparr>rss := appendSpan (rss st3) ss (newSpan s code)\<rparr>"
    by (auto simp: Spans_body_def split: sum.splits)
  from lookupResource_refs_valid [OF assms(1) l1]
  have 1: "refs_valid st1" "ri < length (rss st1)" by simp_all
  have 2: "refs_valid ?st2"
  proof (rule refs_valid_update [OF 1(1)])
    show "rss ?st2 = (rss st1)[ri := fillResource s (rss st1 ! ri)]" by simp
    show "length (ResourceSpans_ScopeSpans (rss st1 ! ri))
            \<le> length (ResourceSpans_ScopeSpans (fillResource s (rss st1 ! ri)))"
      by (simp add: fillResource_def)
  qed simp_all
  from 1(2) have "ri < length (rss ?st2)" by simp
  from lookupScope_refs_valid [OF 2 this l2] have 3: "refs_valid st3" .
  let ?rs = "rss st3 ! fst ss"
  let ?y = "?rs\<lparr>ResourceSpans_ScopeSpans :=
              (ResourceSpans_ScopeSpans ?rs)
                [snd ss := (ResourceSpans_ScopeSpans ?rs ! snd ss)
                   \<lparr>ScopeSpans_Spans :=
                      ScopeSpans_Spans (ResourceSpans_ScopeSpans ?rs ! snd ss)
                        @ [newSpan s code]\<rparr>]\<rparr>"
  show ?thesis
    unfolding st'
  proof (rule refs_valid_update [OF 3])
    show "rss (st3\<lparr>rss := appendSpan (rss st3) ss (newSpan s code)\<rparr>) = (rss st3)[fst ss := ?y]"
      by (simp add: appendSpan_def Let_def)
    show "length (ResourceSpans_ScopeSpans (rss st3 ! fst ss)) \<le> length (ResourceSpans_ScopeSpans ?y)"
      by simp
  qed simp_all
qed

lemma Spans_loop_refs_valid:
  "refs_valid st \<Longrightarrow> Spans_loop F st sdl = Inr st' \<Longrightarrow> refs_valid st'"
proof (induction sdl arbitrary: st)
  case Nil
  then show ?case by simp
next
  case (Cons s sdl)
  then show ?case
    by (cases "Spans_body F st s") (auto dest: Spans_body_refs_valid)
qed

lemma Spans_refs_valid:
  assumes "Spans_loop F \<lparr>rss = [], resMap = Map.empty, scopeMap = Map.empty\<rparr> sdl = Inr st'"
  shows "refs_valid st'"
proof -
  have "refs_valid \<lparr>rss = [], resMap = Map.empty, scopeMap = Map.empty\<rparr>"
    by (simp add: refs_valid_def)
  then show ?thesis using assms by (rule Spans_loop_refs_valid)
qed

section \<open>Properties of the exporter\<close>

subsection \<open>The JSON text of an attribute map\<close>

lemma map_of_map_assign: "map_of (map_assign r k v) = (map_of r)(k \<mapsto> v)"
  by (induction r) (auto simp: fun_eq_iff)

lemma keys_map_assign:
  "map fst (map_assign r k v) = (if k \<in> set (map fst r) then map fst r else map fst r @ [k])"
  by (induction r) auto

lemma Map_AsRaw_into_props:
  "distinct (map fst r) \<Longrightarrow>
     distinct (map fst (Map_AsRaw_into r m))
     \<and> set (map fst (Map_AsRaw_into r m)) = set (map fst r) \<union> set (map fst m)
     \<and> map_of (Map_AsRaw_into r m)
         = map_of r ++ map_of (rev (map (\<lambda>kv. (fst kv, Value_AsRaw (snd kv))) m))"
proof (induction m arbitrary: r)
  case Nil
  then show ?case by simp
next
  case (Cons kv m)
  let ?r = "map_assign r (fst kv) (Value_AsRaw (snd kv))"
  have d: "distinct (map fst ?r)" using Cons.prems by (simp add: keys_map_assign)
  have s: "set (map fst ?r) = insert (fst kv) (set (map fst r))"
    by (auto simp: keys_map_assign)
  from Cons.IH [OF d] s show ?case
    by (auto simp: map_of_map_assign map_add_def fun_eq_iff split: option.splits)
qed

lemma map_insort_key:
  assumes "\<And>k'. fst (g k') = k'"
  shows "map g (insort k ks) = insort_key fst (g k) (map g ks)"
  by (induction ks) (auto simp: assms)

lemma sort_key_distinct:
  "distinct (map fst raw) \<Longrightarrow>
     sort_key fst raw = map (\<lambda>k. (k, the (map_of raw k))) (sort (map fst raw))"
proof (induction raw)
  case Nil
  then show ?case by simp
next
  case (Cons x xs)
  let ?g = "\<lambda>k. (k, the (map_of (x # xs) k))" and ?gx = "\<lambda>k. (k, the (map_of xs k))"
  have "map ?g (sort (map fst (x # xs))) = map ?g (insort (fst x) (sort (map fst xs)))"
    by simp
  also have "\<dots> = insort_key fst (?g (fst x)) (map ?g (sort (map fst xs)))"
    by (rule map_insort_key) simp
  also have "?g (fst x) = x" by simp
  also have "map ?g (sort (map fst xs)) = map ?gx (sort (map fst xs))"
  proof (intro map_cong refl)
    fix k assume "k \<in> set (sort (map fst xs))"
    then have "k \<in> set (map fst xs)" by simp
    with Cons.prems have "k \<noteq> fst x" by force
    then show "?g k = ?gx k" by (cases x) simp
  qed
  also have "\<dots> = sort_key fst xs" using Cons by simp
  finally show ?case by simp
qed

lemma Marshal_fields_map:
  "Marshal_fields F raw =
     map (\<lambda>kv. (fst kv, case Marshal F (snd kv) of Inl e \<Rightarrow> Inl e
                        | Inr s \<Rightarrow> Inr (appendString (fst kv) @ '':'' @ s))) raw"
  by (induction raw) simp_all

lemma insort_key_map_fst:
  assumes "\<And>x. fst (h x) = fst x"
  shows "insort_key fst (h x) (map h xs) = map h (insort_key fst x xs)"
  by (induction xs) (auto simp: assms)

lemma sort_key_map_fst:
  assumes "\<And>x. fst (h x) = fst x"
  shows "sort_key fst (map h xs) = map h (sort_key fst xs)"
  by (induction xs) (simp_all add: insort_key_map_fst [OF assms])

lemma collect_Inr: "collect (map Inr xs) = Inr xs"
  by (induction xs) simp_all

lemma sort_keys_eq:
  assumes "distinct ks" "set ks = set ks'"
  shows "sort ks = sort (remdups ks')"
  by (rule sorted_distinct_set_unique) (simp_all add: assms)

lemma map_of_map_snd:
  "map_of (map (\<lambda>kv. (fst kv, f (snd kv))) xs) k = map_option f (map_of xs k)"
  by (induction xs) auto

lemma Marshal_map_sorted:
  assumes "\<forall>v\<in>snd ` set m. Marshal F (Value_AsRaw v) = Inr (enc v)"
  shows "pcommonMapAsJSON F m =
    Inr (''{'' @ Join (map (\<lambda>k. appendString k @ '':'' @ enc (the (map_of (rev m) k)))
                        (sort (remdups (map fst m)))) '','' @ ''}'')"
proof -
  let ?raw = "Map_AsRaw_into [] m"
  let ?f = "\<lambda>kv. (fst kv, Value_AsRaw (snd kv))"
  let ?h = "\<lambda>kv. (fst kv, case Marshal F (snd kv) of Inl e \<Rightarrow> Inl e
                        | Inr s \<Rightarrow> Inr (appendString (fst kv) @ '':'' @ s))"
  let ?ks = "sort (remdups (map fst m))"
  from Map_AsRaw_into_props [of "[]" m]
  have d: "distinct (map fst ?raw)" and s: "set (map fst ?raw) = set (map fst m)"
    and mo: "map_of ?raw = map_of (rev (map ?f m))" by simp_all
  have ks: "sort (map fst ?raw) = ?ks" using d s by (rule sort_keys_eq)
  have "sort_key fst (Marshal_fields F ?raw) = map ?h (sort_key fst ?raw)"
    by (simp add: Marshal_fields_map sort_key_map_fst)
  also have "\<dots> = map ?h (map (\<lambda>k. (k, the (map_of ?raw k))) ?ks)"
    using sort_key_distinct [OF d] ks by simp
  finally have 1: "map snd (sort_key fst (Marshal_fields F ?raw))
     = map (\<lambda>k. case Marshal F (the (map_of ?raw k)) of Inl e \<Rightarrow> Inl e
                 | Inr s \<Rightarrow> Inr (appendString k @ '':'' @ s)) ?ks"
    by (simp add: comp_def cong: sum.case_cong)
  have 2: "Marshal F (the (map_of ?raw k)) = Inr (enc (the (map_of (rev m) k)))"
    if "k \<in> set ?ks" for k
  proof -
    from that have "k \<in> fst ` set (rev m)" by auto
    then obtain v where v: "map_of (rev m) k = Some v"
      by (cases "map_of (rev m) k") (auto simp: map_of_eq_None_iff)
    then have "v \<in> snd ` set m" by (auto dest!: map_of_SomeD intro: rev_image_eqI)
    moreover have "map_of ?raw k = Some (Value_AsRaw v)"
      using v by (simp add: mo rev_map map_of_map_snd)
    ultimately show ?thesis using assms v by auto
  qed
  have "map snd (sort_key fst (Marshal_fields F ?raw))
     = map Inr (map (\<lambda>k. appendString k @ '':'' @ enc (the (map_of (rev m) k))) ?ks)"
    unfolding 1 using 2 by (simp cong: map_cong)
  then show ?thesis
    by (simp add: pcommonMapAsJSON_def Map_AsRaw_def collect_Inr del: map_map)
qed


lemmas eval_json = pcommonMapAsJSON_def Map_AsRaw_def appendString_def byte_of_def
  FormatInt_def FormatUint.simps digit_def FormatBool_def

text \<open>
  C7, as stated, fails in its last part: the keys are not written in insertion order. A map
  that was given \<open>z\<close> first and \<open>a\<close> second is written with \<open>a\<close> first.
\<close>

theorem C7_counterexample:
  "pcommonMapAsJSON noFloat [(''z'', ValueStr ''first''), (''a'', ValueStr ''second'')]
     = Inr ''{\"a\":\"second\",\"z\":\"first\"}''
   \<and> pcommonMapAsJSON noFloat [(''z'', ValueStr ''first''), (''a'', ValueStr ''second'')]
     \<noteq> Inr ''{\"z\":\"first\",\"a\":\"second\"}''"
  by (simp add: eval_json)

text \<open>
  C7, amended: the empty map is written as \<open>{}\<close>, the map with \<open>http.method\<close> and
  \<open>http.status_code\<close> as the text of the claim, and every map with its keys in ascending
  byte order, each key once with the value inserted last for it, whatever the order of
  insertion (\<open>enc\<close> being the texts of the values, when all of them can be encoded).
\<close>

theorem C7_keys_ascending:
  "pcommonMapAsJSON F [] = Inr ''{}''
   \<and> pcommonMapAsJSON F [(''http.method'', ValueStr ''GET''), (''http.status_code'', ValueInt 200)]
       = Inr ''{\"http.method\":\"GET\",\"http.status_code\":200}''
   \<and> ((\<forall>v\<in>snd ` set m. Marshal F (Value_AsRaw v) = Inr (enc v)) \<longrightarrow>
        pcommonMapAsJSON F m =
          Inr (''{'' @ Join (map (\<lambda>k. appendString k @ '':'' @ enc (the (map_of (rev m) k)))
                              (sort (remdups (map fst m)))) '','' @ ''}''))"
proof (intro conjI impI)
  show "pcommonMapAsJSON F [] = Inr ''{}''"
    by (simp add: eval_json)
  show "pcommonMapAsJSON F [(''http.method'', ValueStr ''GET''), (''http.status_code'', ValueInt 200)]
       = Inr ''{\"http.method\":\"GET\",\"http.status_code\":200}''"
    by (simp add: eval_json)
  assume "\<forall>v\<in>snd ` set m. Marshal F (Value_AsRaw v) = Inr (enc v)"
  then show "pcommonMapAsJSON F m =
          Inr (''{'' @ Join (map (\<lambda>k. appendString k @ '':'' @ enc (the (map_of (rev m) k)))
                              (sort (remdups (map fst m)))) '','' @ ''}'')"
    by (rule Marshal_map_sorted)
qed

theorem C7_keys_ascending_witness:
  "Marshal noFloat (Value_AsRaw (ValueInt 1)) = Inr ''1''
   \<and> Marshal noFloat (Value_AsRaw (ValueInt 2)) = Inr ''2''
   \<and> Marshal noFloat (Value_AsRaw (ValueInt 3)) = Inr ''3''
   \<and> pcommonMapAsJSON noFloat [(''b'', ValueInt 1), (''a'', ValueInt 2), (''b'', ValueInt 3)]
       = Inr ''{\"a\":2,\"b\":3}''"
proof -
  let ?enc = "\<lambda>v. case v of ValueInt i \<Rightarrow> FormatInt (sint i) | _ \<Rightarrow> []"
  let ?m = "[(''b'', ValueInt 1), (''a'', ValueInt 2), (''b'', ValueInt 3)]"
  have h: "\<forall>v\<in>snd ` set ?m. Marshal noFloat (Value_AsRaw v) = Inr (?enc v)"
    by simp
  have "pcommonMapAsJSON noFloat ?m =
          Inr (''{'' @ Join (map (\<lambda>k. appendString k @ '':'' @ ?enc (the (map_of (rev ?m) k)))
                              (sort (remdups (map fst ?m)))) '','' @ ''}'')"
    using C7_keys_ascending [of noFloat ?m ?enc] h by blast
  then show ?thesis
    by (simp add: appendString_def byte_of_def FormatInt_def FormatUint.simps digit_def)
qed

subsection \<open>The rows that a call inserts\<close>

lemma next_fault_tables:
  "next_fault tx = (f, tx') \<Longrightarrow>
     Tx_spans tx' = Tx_spans tx \<and> Tx_events tx' = Tx_events tx \<and> Tx_links tx' = Tx_links tx"
  by (auto simp: next_fault_def split: list.splits)

lemma PrepareContext_tables:
  "PrepareContext tx = (err, tx') \<Longrightarrow>
     Tx_spans tx' = Tx_spans tx \<and> Tx_events tx' = Tx_events tx \<and> Tx_links tx' = Tx_links tx"
  by (cases "next_fault tx") (auto simp: PrepareContext_def dest: next_fault_tables split: bool.splits)

lemma ExecContext_insertEventQ_spans:
  "ExecContext_insertEventQ tx row = (err, tx') \<Longrightarrow> Tx_spans tx' = Tx_spans tx"
  by (cases "next_fault tx")
     (auto simp: ExecContext_insertEventQ_def dest: next_fault_tables split: bool.splits)

lemma ExecContext_insertLinkQ_spans:
  "ExecContext_insertLinkQ tx row = (err, tx') \<Longrightarrow> Tx_spans tx' = Tx_spans tx"
  by (cases "next_fault tx")
     (auto simp: ExecContext_insertLinkQ_def dest: next_fault_tables split: bool.splits)

lemma ExecContext_insertSpanQ_spans:
  "ExecContext_insertSpanQ tx row = (err, tx') \<Longrightarrow>
     Tx_spans tx' = Tx_spans tx \<or> Tx_spans tx' = Tx_spans tx @ [row]"
  by (cases "next_fault tx")
     (auto simp: ExecContext_insertSpanQ_def dest: next_fault_tables split: bool.splits if_splits)

lemma insertEvents_spans:
  "insertEvents F spanidbs tx events = (err, tx') \<Longrightarrow> Tx_spans tx' = Tx_spans tx"
proof (induction events arbitrary: tx)
  case Nil
  then show ?case by simp
next
  case (Cons event events)
  show ?case
  proof (cases "pcommonMapAsJSON F (SpanEvent_Attributes event)")
    case (Inl e)
    with Cons.prems show ?thesis by simp
  next
    case (Inr attrs)
    obtain e1 tx1 where p: "PrepareContext tx = (e1, tx1)" by (cases "PrepareContext tx")
    obtain e2 tx2 where x: "ExecContext_insertEventQ tx1 (eventRow spanidbs attrs event) = (e2, tx2)"
      by (cases "ExecContext_insertEventQ tx1 (eventRow spanidbs attrs event)")
    from PrepareContext_tables [OF p] ExecContext_insertEventQ_spans [OF x]
    have s: "Tx_spans tx1 = Tx_spans tx" "Tx_spans tx2 = Tx_spans tx" by simp_all
    show ?thesis
    proof (cases e1)
      case Some
      with Cons.prems Inr p s show ?thesis by auto
    next
      case None
      show ?thesis
      proof (cases e2)
        case Some
        with Cons.prems Inr p x None s show ?thesis by auto
      next
        case n2: None
        with Cons.prems Inr p x None have "insertEvents F spanidbs tx2 events = (err, tx')"
          by simp
        from Cons.IH [OF this] s show ?thesis by simp
      qed
    qed
  qed
qed

lemma insertLinks_spans:
  "insertLinks F spanidbs tx links = (err, tx') \<Longrightarrow> Tx_spans tx' = Tx_spans tx"
proof (induction links arbitrary: tx)
  case Nil
  then show ?case by simp
next
  case (Cons link links)
  show ?case
  proof (cases "pcommonMapAsJSON F (SpanLink_Attributes link)")
    case (Inl e)
    with Cons.prems show ?thesis by simp
  next
    case (Inr attrs)
    obtain e1 tx1 where p: "PrepareContext tx = (e1, tx1)" by (cases "PrepareContext tx")
    obtain e2 tx2 where x: "ExecContext_insertLinkQ tx1 (linkRow spanidbs attrs link) = (e2, tx2)"
      by (cases "ExecContext_insertLinkQ tx1 (linkRow spanidbs attrs link)")
    from PrepareContext_tables [OF p] ExecContext_insertLinkQ_spans [OF x]
    have s: "Tx_spans tx1 = Tx_spans tx" "Tx_spans tx2 = Tx_spans tx" by simp_all
    show ?thesis
    proof (cases e1)
      case Some
      with Cons.prems Inr p s show ?thesis by auto
    next
      case None
      show ?thesis
      proof (cases e2)
        case Some
        with Cons.prems Inr p x None s show ?thesis by auto
      next
        case n2: None
        with Cons.prems Inr p x None have "insertLinks F spanidbs tx2 links = (err, tx')"
          by simp
        from Cons.IH [OF this] s show ?thesis by simp
      qed
    qed
  qed
qed

lemma insertSpan_spans:
  assumes "insertSpan F svc rattrs sattrs resource scope tx span = (err, tx')"
  shows "Tx_spans tx' = Tx_spans tx
         \<or> (\<exists>attrs. Tx_spans tx' = Tx_spans tx @ [spanRow svc rattrs sattrs attrs resource scope span])"
proof -
  obtain e1 tx1 where p: "PrepareContext tx = (e1, tx1)" by (cases "PrepareContext tx")
  note s1 = PrepareContext_tables [OF p]
  show ?thesis
  proof (cases e1)
    case Some
    with assms p s1 show ?thesis by (auto simp: insertSpan_def)
  next
    case None
    show ?thesis
    proof (cases "pcommonMapAsJSON F (Span_Attributes span)")
      case (Inl e)
      with assms p None s1 show ?thesis by (auto simp: insertSpan_def)
    next
      case (Inr attrs)
      let ?row = "spanRow svc rattrs sattrs attrs resource scope span"
      obtain e2 tx2 where x: "ExecContext_insertSpanQ tx1 ?row = (e2, tx2)"
        by (cases "ExecContext_insertSpanQ tx1 ?row")
      from ExecContext_insertSpanQ_spans [OF x] s1
      have s2: "Tx_spans tx2 = Tx_spans tx \<or> Tx_spans tx2 = Tx_spans tx @ [?row]" by simp
      show ?thesis
      proof (cases e2)
        case Some
        with assms p None Inr x s2 show ?thesis by (auto simp: insertSpan_def)
      next
        case n2: None
        obtain e3 tx3 where ev: "insertEvents F (Span_SpanID span) tx2 (Span_Events span) = (e3, tx3)"
          by (cases "insertEvents F (Span_SpanID span) tx2 (Span_Events span)")
        note s3 = insertEvents_spans [OF ev]
        show ?thesis
        proof (cases e3)
          case Some
          with assms p None Inr x n2 ev s2 s3 show ?thesis by (auto simp: insertSpan_def)
        next
          case n3: None
          with assms p None Inr x n2 ev
          have "insertLinks F (Span_SpanID span) tx3 (Span_Links span) = (err, tx')"
            by (simp add: insertSpan_def)
          from insertLinks_spans [OF this] s2 s3 show ?thesis by auto
        qed
      qed
    qed
  qed
qed

lemma insertSpans_spans:
  assumes "insertSpans F svc rattrs sattrs resource scope tx spans = (err, tx')"
  shows "\<exists>new. Tx_spans tx' = Tx_spans tx @ new
           \<and> (\<forall>r\<in>set new. \<exists>span\<in>set spans. isRowOf r resource scope span)"
  using assms
proof (induction spans arbitrary: tx)
  case Nil
  then show ?case by simp
next
  case (Cons span spans)
  obtain e1 tx1 where i: "insertSpan F svc rattrs sattrs resource scope tx span = (e1, tx1)"
    by (cases "insertSpan F svc rattrs sattrs resource scope tx span")
  from insertSpan_spans [OF i] obtain new1 where
    n1: "Tx_spans tx1 = Tx_spans tx @ new1" "\<forall>r\<in>set new1. isRowOf r resource scope span"
  proof
    assume "Tx_spans tx1 = Tx_spans tx"
    then show ?thesis by (intro that [of "[]"]) simp_all
  next
    assume "\<exists>attrs. Tx_spans tx1 = Tx_spans tx @ [spanRow svc rattrs sattrs attrs resource scope span]"
    then obtain attrs where
      "Tx_spans tx1 = Tx_spans tx @ [spanRow svc rattrs sattrs attrs resource scope span]" ..
    then show ?thesis
      by (intro that [of "[spanRow svc rattrs sattrs attrs resource scope span]"])
         (auto simp: isRowOf_def)
  qed
  show ?case
  proof (cases e1)
    case Some
    with Cons.prems i have "tx' = tx1" by simp
    with n1 show ?thesis by (intro exI [of _ new1]) auto
  next
    case None
    with Cons.prems i have "insertSpans F svc rattrs sattrs resource scope tx1 spans = (err, tx')"
      by simp
    from Cons.IH [OF this] obtain new2 where
      n2: "Tx_spans tx' = Tx_spans tx1 @ new2"
          "\<forall>r\<in>set new2. \<exists>span\<in>set spans. isRowOf r resource scope span" by blast
    from n1 n2 show ?thesis by (intro exI [of _ "new1 @ new2"]) auto
  qed
qed

lemma insertScopes_spans:
  assumes "insertScopes F svc rattrs resource tx scopes = (err, tx')"
  shows "\<exists>new. Tx_spans tx' = Tx_spans tx @ new
           \<and> (\<forall>r\<in>set new. \<exists>scope\<in>set scopes. \<exists>span\<in>set (ScopeSpans_Spans scope).
                 isRowOf r resource scope span)"
  using assms
proof (induction scopes arbitrary: tx)
  case Nil
  then show ?case by simp
next
  case (Cons scope scopes)
  show ?case
  proof (cases "pcommonMapAsJSON F (InstrumentationScope_Attributes (ScopeSpans_Scope scope))")
    case (Inl e)
    with Cons.prems show ?thesis by simp
  next
    case (Inr sattrs)
    obtain e1 tx1 where
      i: "insertSpans F svc rattrs sattrs resource scope tx (ScopeSpans_Spans scope) = (e1, tx1)"
      by (cases "insertSpans F svc rattrs sattrs resource scope tx (ScopeSpans_Spans scope)")
    from insertSpans_spans [OF i] obtain new1 where
      n1: "Tx_spans tx1 = Tx_spans tx @ new1"
          "\<forall>r\<in>set new1. \<exists>span\<in>set (ScopeSpans_Spans scope). isRowOf r resource scope span"
      by blast
    show ?thesis
    proof (cases e1)
      case Some
      with Cons.prems Inr i have "tx' = tx1" by simp
      with n1 show ?thesis by (intro exI [of _ new1]) auto
    next
      case None
      with Cons.prems Inr i have "insertScopes F svc rattrs resource tx1 scopes = (err, tx')"
        by simp
      from Cons.IH [OF this] obtain new2 where
        n2: "Tx_spans tx' = Tx_spans tx1 @ new2"
            "\<forall>r\<in>set new2. \<exists>scope\<in>set scopes. \<exists>span\<in>set (ScopeSpans_Spans scope).
                 isRowOf r resource scope span" by blast
      from n1 n2 show ?thesis by (intro exI [of _ "new1 @ new2"]) auto
    qed
  qed
qed

lemma insertResources_spans:
  assumes "insertResources F tx traces = (err, tx')"
  shows "\<exists>new. Tx_spans tx' = Tx_spans tx @ new
           \<and> (\<forall>r\<in>set new. \<exists>resource\<in>set traces.
                 \<exists>scope\<in>set (ResourceSpans_ScopeSpans resource).
                 \<exists>span\<in>set (ScopeSpans_Spans scope). isRowOf r resource scope span)"
  using assms
proof (induction traces arbitrary: tx)
  case Nil
  then show ?case by simp
next
  case (Cons resource resources)
  show ?case
  proof (cases "pcommonMapAsJSON F (Resource_Attributes (ResourceSpans_Resource resource))")
    case (Inl e)
    with Cons.prems show ?thesis by simp
  next
    case (Inr rattrs)
    let ?svc = "serviceName (Resource_Attributes (ResourceSpans_Resource resource))"
    obtain e1 tx1 where
      i: "insertScopes F ?svc rattrs resource tx (ResourceSpans_ScopeSpans resource) = (e1, tx1)"
      by (cases "insertScopes F ?svc rattrs resource tx (ResourceSpans_ScopeSpans resource)")
    from insertScopes_spans [OF i] obtain new1 where
      n1: "Tx_spans tx1 = Tx_spans tx @ new1"
          "\<forall>r\<in>set new1. \<exists>scope\<in>set (ResourceSpans_ScopeSpans resource).
              \<exists>span\<in>set (ScopeSpans_Spans scope). isRowOf r resource scope span"
      by blast
    show ?thesis
    proof (cases e1)
      case Some
      with Cons.prems Inr i have "tx' = tx1" by simp
      with n1 show ?thesis by (intro exI [of _ new1]) auto
    next
      case None
      with Cons.prems Inr i have "insertResources F tx1 resources = (err, tx')"
        by simp
      from Cons.IH [OF this] obtain new2 where
        n2: "Tx_spans tx' = Tx_spans tx1 @ new2"
            "\<forall>r\<in>set new2. \<exists>resource\<in>set resources.
                 \<exists>scope\<in>set (ResourceSpans_ScopeSpans resource).
                 \<exists>span\<in>set (ScopeSpans_Spans scope). isRowOf r resource scope span" by blast
      from n1 n2 show ?thesis by (intro exI [of _ "new1 @ new2"]) auto
    qed
  qed
qed

lemma ConsumeTraces_spans:
  assumes "ConsumeTraces F faults db traces = Returns err db'"
  shows "\<exists>new. DB_spans db' = DB_spans db @ new
           \<and> (\<forall>r\<in>set new. \<exists>resource\<in>set traces.
                 \<exists>scope\<in>set (ResourceSpans_ScopeSpans resource).
                 \<exists>span\<in>set (ScopeSpans_Spans scope). isRowOf r resource scope span)"
proof (cases "DB_closed db")
  case True
  with assms have "db' = db" by (simp add: ConsumeTraces_def)
  then show ?thesis by (intro exI [of _ "[]"]) simp
next
  case False
  let ?tx = "\<lparr>Tx_spans = DB_spans db, Tx_events = DB_events db, Tx_links = DB_links db,
              Tx_faults = faults\<rparr>"
  obtain e tx' where i: "insertResources F ?tx traces = (e, tx')"
    by (cases "insertResources F ?tx traces")
  with assms False have "DB_spans db' = Tx_spans tx'"
    by (auto simp: ConsumeTraces_def Commit_def split: if_splits)
  with insertResources_spans [OF i] show ?thesis by simp
qed

subsection \<open>Timestamps, durations and the columns of a span row\<close>

lemmas eval_store = ConsumeTraces_def pool_exhausted_def take_conn_def Commit_def sqlOpen_def
  insertSpan_def PrepareContext_def next_fault_def ExecContext_insertSpanQ_def
  ExecContext_insertEventQ_def ExecContext_insertLinkQ_def
  Value_Str_def storeOf_def errorOf_def

lemma sint_word_of_int_64:
  "- (2 ^ 63) \<le> x \<Longrightarrow> x < 2 ^ 63 \<Longrightarrow> sint (word_of_int x :: 64 word) = x"
  by (simp add: sint_sbintrunc' signed_take_bit_int_eq_self)

lemma sdiv_1000_range:
  "- (2 ^ 63) \<le> (x :: int) \<Longrightarrow> x < 2 ^ 63
     \<Longrightarrow> - (2 ^ 63) \<le> x sdiv 1000 \<and> x sdiv 1000 < 2 ^ 63"
  by (cases "x \<ge> 0") (auto simp: signed_divide_int_def sgn_if)

lemma UnixNano_AsTime: "UnixNano (AsTime ts) = ts"
  by (simp add: UnixNano_def AsTime_def Unix_def)

lemma unixMicro_AsTime: "sint (unixMicro (AsTime ts)) = sint ts sdiv 1000"
proof -
  have r: "- (2 ^ 63) \<le> sint ts" "sint ts < 2 ^ 63"
    using sint_ge [of ts] sint_lt [of ts] by simp_all
  from sdiv_1000_range [OF r] show ?thesis
    by (simp add: unixMicro_def UnixNano_AsTime sint_word_of_int_64)
qed

lemma Sub_AsTime:
  "sint (Microseconds (Sub (AsTime e) (AsTime s))) = clampDuration (sint e - sint s) sdiv 1000"
proof -
  let ?d = "sint e - sint s"
  have d: "(Time_sec (AsTime e) - Time_sec (AsTime s)) * 1000000000
             + (Time_nsec (AsTime e) - Time_nsec (AsTime s)) = ?d"
    by (simp add: AsTime_def Unix_def algebra_simps)
  have c: "- (2 ^ 63) \<le> clampDuration ?d" "clampDuration ?d < 2 ^ 63"
    by (simp_all add: clampDuration_def minDuration_def maxDuration_def)
  have "Sub (AsTime e) (AsTime s) = word_of_int (clampDuration ?d)"
    unfolding Sub_def d Let_def
    by (auto simp: clampDuration_def minDuration_def maxDuration_def)
  then have "sint (Sub (AsTime e) (AsTime s)) = clampDuration ?d"
    using c by (simp add: sint_word_of_int_64)
  with sdiv_1000_range [OF c] show ?thesis
    by (simp add: Microseconds_def sint_word_of_int_64)
qed

lemma spanRow_columns:
  "spans_span_id (spanRow svc ra sa a rs ss sp) = Span_SpanID sp"
  "spans_trace_id (spanRow svc ra sa a rs ss sp) = Span_TraceID sp"
  "spans_parent_span_id (spanRow svc ra sa a rs ss sp) =
     (if Span_ParentSpanID sp = [0, 0, 0, 0, 0, 0, 0, 0] then None
      else Some (Span_ParentSpanID sp))"
  "spans_start_time (spanRow svc ra sa a rs ss sp) = sint (Span_StartTimestamp sp) sdiv 1000"
  "spans_end_time (spanRow svc ra sa a rs ss sp) = sint (Span_EndTimestamp sp) sdiv 1000"
  "spans_duration (spanRow svc ra sa a rs ss sp) =
     clampDuration (sint (Span_EndTimestamp sp) - sint (Span_StartTimestamp sp)) sdiv 1000"
  "spans_status_code (spanRow svc ra sa a rs ss sp) = sint (Status_Code (Span_Status sp))"
  "spans_kind (spanRow svc ra sa a rs ss sp) = SpanKind_String (Span_Kind sp)"
  "spans_resource_dropped_attributes_count (spanRow svc ra sa a rs ss sp) =
     uint (Resource_DroppedAttributesCount (ResourceSpans_Resource rs))"
  by (simp_all add: spanRow_def IsEmpty_def unixMicro_AsTime Sub_AsTime)

lemma DB_spans_sqlOpen: "DB_spans sqlOpen = []"
  by (simp add: sqlOpen_def)

lemmas eval_rows = spanRow_def eventRow_def linkRow_def IsEmpty_def unixMicro_def UnixNano_def
  AsTime_def Unix_def Sub_def Microseconds_def minDuration_def maxDuration_def
  SpanKind_String_def StatusCodeOk_def signed_divide_int_def

lemma testTrace_stored:
  "ConsumeTraces noFloat [] sqlOpen testTrace =
     Returns None
       \<lparr>DB_spans =
          [\<lparr>spans_span_id = [0xee, 0xbc, 0, 0, 0, 0, 0xab, 1],
            spans_trace_id = [0, 0, 0, 0, 0, 0, 0, 0, 0, 0, 0, 0, 0, 0, 0, 1],
            spans_parent_span_id = None,
            spans_tracestate = ''rojo=00f067aa0ba902b7'',
            spans_service_name = ''test-service'',
            spans_duration = 5000,
            spans_name = ''span1'',
            spans_kind = ''Server'',
            spans_start_time = 1699999999995000,
            spans_end_time = 1700000000000000,
            spans_status_code = 1,
            spans_status_description = ''Ok'',
            spans_attributes = ''{\"http.method\":\"GET\",\"http.status_code\":200}'',
            spans_dropped_attributes_count = 0,
            spans_dropped_events_count = 0,
            spans_dropped_links_count = 0,
            spans_resource_attributes = ''{\"service.name\":\"test-service\"}'',
            spans_resource_dropped_attributes_count = 0,
            spans_instrumentation_library_name = ''test-scope'',
            spans_instrumentation_library_version = ''v0.1.0'',
            spans_instrumentation_library_attributes = ''{\"scope.stringkey\":\"scope.stringval\"}''\<rparr>,
           \<lparr>spans_span_id = [0xee, 0xbc, 0, 0, 0, 0, 0xab, 2],
            spans_trace_id = [0, 0, 0, 0, 0, 0, 0, 0, 0, 0, 0, 0, 0, 0, 0, 1],
            spans_parent_span_id = Some [0xee, 0xbc, 0, 0, 0, 0, 0xab, 1],
            spans_tracestate = [],
            spans_service_name = ''test-service'',
            spans_duration = 3000,
            spans_name = ''span2'',
            spans_kind = ''Internal'',
            spans_start_time = 1699999999996000,
            spans_end_time = 1699999999999000,
            spans_status_code = 1,
            spans_status_description = ''Ok'',
            spans_attributes = ''{\"custom.key\":\"custom-value\"}'',
            spans_dropped_attributes_count = 0,
            spans_dropped_events_count = 0,
            spans_dropped_links_count = 0,
            spans_resource_attributes = ''{\"service.name\":\"test-service\"}'',
            spans_resource_dropped_attributes_count = 0,
            spans_instrumentation_library_name = ''test-scope'',
            spans_instrumentation_library_version = ''v0.1.0'',
            spans_instrumentation_library_attributes = ''{\"scope.stringkey\":\"scope.stringval\"}''\<rparr>],
        DB_events =
          [\<lparr>events_span_id = [0xee, 0xbc, 0, 0, 0, 0, 0xab, 1],
            events_timestamp = 1699999999997000, events_name = ''this_happened'',
            events_attributes = ''{\"value\":\"example\"}'', events_dropped_attributes_count = 0\<rparr>,
           \<lparr>events_span_id = [0xee, 0xbc, 0, 0, 0, 0, 0xab, 1],
            events_timestamp = 1699999999996000, events_name = ''that_happened'',
            events_attributes = ''{\"value\":\"example\"}'', events_dropped_attributes_count = 0\<rparr>,
           \<lparr>events_span_id = [0xee, 0xbc, 0, 0, 0, 0, 0xab, 2],
            events_timestamp = 1699999999997000, events_name = ''this_happened'',
            events_attributes = ''{\"value\":\"example\"}'', events_dropped_attributes_count = 0\<rparr>,
           \<lparr>events_span_id = [0xee, 0xbc, 0, 0, 0, 0, 0xab, 2],
            events_timestamp = 1699999999996000, events_name = ''that_happened'',
            events_attributes = ''{\"value\":\"example\"}'', events_dropped_attributes_count = 0\<rparr>],
        DB_links =
          [\<lparr>links_parent_span_id = [0xee, 0xbc, 0, 0, 0, 0, 0xab, 2],
            links_span_id = [0xee, 0xbc, 0, 0, 0, 0, 0xab, 1],
            links_trace_id = [0, 0, 0, 0, 0, 0, 0, 0, 0, 0, 0, 0, 0, 0, 0, 1],
            links_tracestate = [],
            links_attributes = ''{\"relation\":\"follows_from\"}'',
            links_dropped_attributes_count = 0\<rparr>],
        DB_maxOpen = 0, DB_numInUse = 1, DB_closed = False\<rparr>"
  by (simp add: testTrace_def batchOf_def span1_def span2_def now_def eval_store eval_rows eval_json)

text \<open>
  C6, as stated, fails in its second part for a span whose end and start are further apart
  than a \<open>time.Duration\<close> can hold: \<open>Sub\<close> saturates. For a start at the least \<open>int64\<close>
  nanosecond and an end at the greatest, end minus start is 18446744073709551615 ns, yet the
  duration written is that of the greatest duration, 9223372036854775 us.
\<close>

theorem C6_counterexample:
  "sint (Span_EndTimestamp farSpan) - sint (Span_StartTimestamp farSpan) = 18446744073709551615
   \<and> map spans_duration (DB_spans (storeOf (ConsumeTraces noFloat [] sqlOpen (batchOf [farSpan]))))
       = [9223372036854775]"
  by (simp add: farSpan_def batchOf_def span1_def now_def eval_store eval_rows eval_json)

text \<open>
  C6, amended: for every span row a call inserts, \<open>start_time\<close> and \<open>end_time\<close> are the
  span's timestamps, read as signed 64-bit nanoseconds, divided by 1000 with truncation
  towards zero, and \<open>__duration\<close> is end minus start in nanoseconds, clamped to the range of
  \<open>time.Duration\<close>, divided by 1000 with truncation. So it is end minus start in microseconds
  whenever that difference fits in 64 bits, and exactly 5000 for an end 5 ms after the start.
\<close>

theorem C6_microseconds:
  assumes "ConsumeTraces F faults db traces = Returns err db'"
  shows "\<exists>new. DB_spans db' = DB_spans db @ new
           \<and> (\<forall>r\<in>set new. \<exists>resource\<in>set traces.
                 \<exists>scope\<in>set (ResourceSpans_ScopeSpans resource).
                 \<exists>span\<in>set (ScopeSpans_Spans scope).
                   spans_span_id r = Span_SpanID span \<and> spans_trace_id r = Span_TraceID span
                   \<and> spans_start_time r = sint (Span_StartTimestamp span) sdiv 1000
                   \<and> spans_end_time r = sint (Span_EndTimestamp span) sdiv 1000
                   \<and> spans_duration r =
                       clampDuration (sint (Span_EndTimestamp span) - sint (Span_StartTimestamp span))
                         sdiv 1000
                   \<and> (minDuration \<le> sint (Span_EndTimestamp span) - sint (Span_StartTimestamp span)
                        \<and> sint (Span_EndTimestamp span) - sint (Span_StartTimestamp span) \<le> maxDuration
                        \<longrightarrow> spans_duration r =
                              (sint (Span_EndTimestamp span) - sint (Span_StartTimestamp span)) sdiv 1000)
                   \<and> (sint (Span_EndTimestamp span) = sint (Span_StartTimestamp span) + 5000000
                        \<longrightarrow> spans_duration r = 5000))"
proof -
  from ConsumeTraces_spans [OF assms] obtain new where
    new: "DB_spans db' = DB_spans db @ new"
    and rows: "\<forall>r\<in>set new. \<exists>resource\<in>set traces.
                 \<exists>scope\<in>set (ResourceSpans_ScopeSpans resource).
                 \<exists>span\<in>set (ScopeSpans_Spans scope). isRowOf r resource scope span"
    by blast
  have "\<exists>resource\<in>set traces. \<exists>scope\<in>set (ResourceSpans_ScopeSpans resource).
          \<exists>span\<in>set (ScopeSpans_Spans scope).
            spans_span_id r = Span_SpanID span \<and> spans_trace_id r = Span_TraceID span
            \<and> spans_start_time r = sint (Span_StartTimestamp span) sdiv 1000
            \<and> spans_end_time r = sint (Span_EndTimestamp span) sdiv 1000
            \<and> spans_duration r =
                clampDuration (sint (Span_EndTimestamp span) - sint (Span_StartTimestamp span))
                  sdiv 1000
            \<and> (minDuration \<le> sint (Span_EndTimestamp span) - sint (Span_StartTimestamp span)
                 \<and> sint (Span_EndTimestamp span) - sint (Span_StartTimestamp span) \<le> maxDuration
                 \<longrightarrow> spans_duration r =
                       (sint (Span_EndTimestamp span) - sint (Span_StartTimestamp span)) sdiv 1000)
            \<and> (sint (Span_EndTimestamp span) = sint (Span_StartTimestamp span) + 5000000
                 \<longrightarrow> spans_duration r = 5000)"
    if "r \<in> set new" for r
  proof -
    from rows that obtain resource scope span where
      mem: "resource \<in> set traces" "scope \<in> set (ResourceSpans_ScopeSpans resource)"
        "span \<in> set (ScopeSpans_Spans scope)"
      and r: "isRowOf r resource scope span" by blast
    from r obtain svc ra sa a where r': "r = spanRow svc ra sa a resource scope span"
      by (auto simp: isRowOf_def)
    have five: "clampDuration 5000000 sdiv 1000 = 5000"
      by (simp add: clampDuration_def minDuration_def maxDuration_def signed_divide_int_def)
    have "spans_span_id r = Span_SpanID span \<and> spans_trace_id r = Span_TraceID span
            \<and> spans_start_time r = sint (Span_StartTimestamp span) sdiv 1000
            \<and> spans_end_time r = sint (Span_EndTimestamp span) sdiv 1000
            \<and> spans_duration r =
                clampDuration (sint (Span_EndTimestamp span) - sint (Span_StartTimestamp span))
                  sdiv 1000
            \<and> (minDuration \<le> sint (Span_EndTimestamp span) - sint (Span_StartTimestamp span)
                 \<and> sint (Span_EndTimestamp span) - sint (Span_StartTimestamp span) \<le> maxDuration
                 \<longrightarrow> spans_duration r =
                       (sint (Span_EndTimestamp span) - sint (Span_StartTimestamp span)) sdiv 1000)
            \<and> (sint (Span_EndTimestamp span) = sint (Span_StartTimestamp span) + 5000000
                 \<longrightarrow> spans_duration r = 5000)"
      unfolding r' spanRow_columns using five by (auto simp: clampDuration_def)
    with mem show ?thesis by blast
  qed
  with new show ?thesis by blast
qed

theorem C6_microseconds_witness:
  "ConsumeTraces noFloat [] sqlOpen testTrace
     = Returns None (storeOf (ConsumeTraces noFloat [] sqlOpen testTrace))
   \<and> map spans_start_time (DB_spans (storeOf (ConsumeTraces noFloat [] sqlOpen testTrace)))
       = [1699999999995000, 1699999999996000]
   \<and> map spans_end_time (DB_spans (storeOf (ConsumeTraces noFloat [] sqlOpen testTrace)))
       = [1700000000000000, 1699999999999000]
   \<and> map spans_duration (DB_spans (storeOf (ConsumeTraces noFloat [] sqlOpen testTrace)))
       = [5000, 3000]
   \<and> (\<exists>new. DB_spans (storeOf (ConsumeTraces noFloat [] sqlOpen testTrace)) = DB_spans sqlOpen @ new
        \<and> length new = 2)"
proof -
  let ?db = "storeOf (ConsumeTraces noFloat [] sqlOpen testTrace)"
  have r: "ConsumeTraces noFloat [] sqlOpen testTrace = Returns None ?db"
    by (simp add: testTrace_stored storeOf_def)
  have n: "length (DB_spans ?db) = 2"
    by (simp add: testTrace_stored storeOf_def)
  have v: "map spans_start_time (DB_spans ?db) = [1699999999995000, 1699999999996000]"
    "map spans_end_time (DB_spans ?db) = [1700000000000000, 1699999999999000]"
    "map spans_duration (DB_spans ?db) = [5000, 3000]"
    by (simp_all add: testTrace_stored storeOf_def)
  from C6_microseconds [OF r] obtain new where new: "DB_spans ?db = DB_spans sqlOpen @ new"
    by blast
  with n have "length new = 2" by (simp add: DB_spans_sqlOpen)
  with new have "\<exists>new. DB_spans ?db = DB_spans sqlOpen @ new \<and> length new = 2" by blast
  with r v show ?thesis by blast
qed

subsection \<open>The columns of the rows that a call inserts\<close>

lemma ConsumeTraces_rows:
  assumes "ConsumeTraces F faults db traces = Returns err db'"
    and "\<And>svc ra sa a resource scope span. P (spanRow svc ra sa a resource scope span) resource scope span"
  shows "\<exists>new. DB_spans db' = DB_spans db @ new
           \<and> (\<forall>r\<in>set new. \<exists>resource\<in>set traces.
                 \<exists>scope\<in>set (ResourceSpans_ScopeSpans resource).
                 \<exists>span\<in>set (ScopeSpans_Spans scope). P r resource scope span)"
proof -
  from ConsumeTraces_spans [OF assms(1)] obtain new where
    new: "DB_spans db' = DB_spans db @ new"
    and rows: "\<forall>r\<in>set new. \<exists>resource\<in>set traces.
                 \<exists>scope\<in>set (ResourceSpans_ScopeSpans resource).
                 \<exists>span\<in>set (ScopeSpans_Spans scope). isRowOf r resource scope span"
    by blast
  have "\<exists>resource\<in>set traces. \<exists>scope\<in>set (ResourceSpans_ScopeSpans resource).
          \<exists>span\<in>set (ScopeSpans_Spans scope). P r resource scope span"
    if "r \<in> set new" for r
  proof -
    from rows that obtain resource scope span where
      mem: "resource \<in> set traces" "scope \<in> set (ResourceSpans_ScopeSpans resource)"
        "span \<in> set (ScopeSpans_Spans scope)"
      and r: "isRowOf r resource scope span" by blast
    from r assms(2) have "P r resource scope span" by (auto simp: isRowOf_def)
    with mem show ?thesis by blast
  qed
  with new show ?thesis by blast
qed

text \<open>
  C8: for every span row a call inserts, the \<open>span_id\<close> and \<open>trace_id\<close> columns hold the
  span's own ids byte for byte; the \<open>parent_span_id\<close> column is NULL when the span's parent
  id is all zero, and holds exactly the parent's bytes otherwise.
\<close>

theorem C8_parent_null:
  assumes "ConsumeTraces F faults db traces = Returns err db'"
  shows "\<exists>new. DB_spans db' = DB_spans db @ new
           \<and> (\<forall>r\<in>set new. \<exists>resource\<in>set traces.
                 \<exists>scope\<in>set (ResourceSpans_ScopeSpans resource).
                 \<exists>span\<in>set (ScopeSpans_Spans scope).
                   spans_span_id r = Span_SpanID span \<and> spans_trace_id r = Span_TraceID span
                   \<and> (Span_ParentSpanID span = [0, 0, 0, 0, 0, 0, 0, 0]
                        \<longrightarrow> spans_parent_span_id r = None)
                   \<and> (Span_ParentSpanID span \<noteq> [0, 0, 0, 0, 0, 0, 0, 0]
                        \<longrightarrow> spans_parent_span_id r = Some (Span_ParentSpanID span)))"
  by (rule ConsumeTraces_rows [OF assms]) (simp add: spanRow_columns)

theorem C8_parent_null_witness:
  "ConsumeTraces noFloat [] sqlOpen testTrace
     = Returns None (storeOf (ConsumeTraces noFloat [] sqlOpen testTrace))
   \<and> map Span_ParentSpanID [span1, span2]
       = [[0, 0, 0, 0, 0, 0, 0, 0], [0xee, 0xbc, 0, 0, 0, 0, 0xab, 1]]
   \<and> map spans_parent_span_id (DB_spans (storeOf (ConsumeTraces noFloat [] sqlOpen testTrace)))
       = [None, Some [0xee, 0xbc, 0, 0, 0, 0, 0xab, 1]]
   \<and> map spans_span_id (DB_spans (storeOf (ConsumeTraces noFloat [] sqlOpen testTrace)))
       = map Span_SpanID [span1, span2]
   \<and> (\<exists>new. DB_spans (storeOf (ConsumeTraces noFloat [] sqlOpen testTrace)) = DB_spans sqlOpen @ new
        \<and> length new = 2)"
proof -
  let ?db = "storeOf (ConsumeTraces noFloat [] sqlOpen testTrace)"
  have r: "ConsumeTraces noFloat [] sqlOpen testTrace = Returns None ?db"
    by (simp add: testTrace_stored storeOf_def)
  have n: "length (DB_spans ?db) = 2"
    by (simp add: testTrace_stored storeOf_def)
  have v: "map Span_ParentSpanID [span1, span2]
       = [[0, 0, 0, 0, 0, 0, 0, 0], [0xee, 0xbc, 0, 0, 0, 0, 0xab, 1]]"
    "map spans_parent_span_id (DB_spans ?db) = [None, Some [0xee, 0xbc, 0, 0, 0, 0, 0xab, 1]]"
    "map spans_span_id (DB_spans ?db) = map Span_SpanID [span1, span2]"
    by (simp_all add: testTrace_stored storeOf_def span1_def span2_def)
  from C8_parent_null [OF r] obtain new where new: "DB_spans ?db = DB_spans sqlOpen @ new"
    by blast
  with n have "length new = 2" by (simp add: DB_spans_sqlOpen)
  with new have "\<exists>new. DB_spans ?db = DB_spans sqlOpen @ new \<and> length new = 2" by blast
  with r v show ?thesis by blast
qed

text \<open>
  C9, as stated, fails in its second part: the \<open>kind\<close> column is what pdata's
  \<open>SpanKind.String\<close> returns, and that name is capitalised. The server span of the test
  batch is written with the kind \<open>Server\<close>, not \<open>server\<close>.
\<close>

theorem C9_counterexample:
  "map Span_Kind [span1, span2] = [2, 1]
   \<and> map spans_kind (DB_spans (storeOf (ConsumeTraces noFloat [] sqlOpen testTrace)))
       = [''Server'', ''Internal'']
   \<and> map spans_kind (DB_spans (storeOf (ConsumeTraces noFloat [] sqlOpen testTrace)))
       \<noteq> [''server'', ''internal'']"
  by (simp add: testTrace_stored storeOf_def span1_def span2_def)

text \<open>
  C9, amended: for every span row a call inserts, the \<open>status_code\<close> column is the integer
  value of the span's status code, and the \<open>kind\<close> column is the name pdata gives the span's
  kind: \<open>Unspecified\<close>, \<open>Internal\<close>, \<open>Server\<close>, \<open>Client\<close>, \<open>Producer\<close> or \<open>Consumer\<close>, and the
  empty text for any other value.
\<close>

theorem C9_status_and_kind:
  assumes "ConsumeTraces F faults db traces = Returns err db'"
  shows "(\<exists>new. DB_spans db' = DB_spans db @ new
           \<and> (\<forall>r\<in>set new. \<exists>resource\<in>set traces.
                 \<exists>scope\<in>set (ResourceSpans_ScopeSpans resource).
                 \<exists>span\<in>set (ScopeSpans_Spans scope).
                   spans_span_id r = Span_SpanID span \<and> spans_trace_id r = Span_TraceID span
                   \<and> spans_status_code r = sint (Status_Code (Span_Status span))
                   \<and> spans_kind r = SpanKind_String (Span_Kind span)))
         \<and> SpanKind_String 0 = ''Unspecified'' \<and> SpanKind_String 1 = ''Internal''
         \<and> SpanKind_String 2 = ''Server'' \<and> SpanKind_String 3 = ''Client''
         \<and> SpanKind_String 4 = ''Producer'' \<and> SpanKind_String 5 = ''Consumer''
         \<and> (\<forall>sk. 5 < sk \<longrightarrow> SpanKind_String sk = [])"
proof -
  have "\<exists>new. DB_spans db' = DB_spans db @ new
           \<and> (\<forall>r\<in>set new. \<exists>resource\<in>set traces.
                 \<exists>scope\<in>set (ResourceSpans_ScopeSpans resource).
                 \<exists>span\<in>set (ScopeSpans_Spans scope).
                   spans_span_id r = Span_SpanID span \<and> spans_trace_id r = Span_TraceID span
                   \<and> spans_status_code r = sint (Status_Code (Span_Status span))
                   \<and> spans_kind r = SpanKind_String (Span_Kind span))"
    by (rule ConsumeTraces_rows [OF assms]) (simp add: spanRow_columns)
  moreover have "\<forall>sk. 5 < sk \<longrightarrow> SpanKind_String sk = []"
    by (auto simp: SpanKind_String_def)
  ultimately show ?thesis by (simp add: SpanKind_String_def)
qed

theorem C9_status_and_kind_witness:
  "ConsumeTraces noFloat [] sqlOpen testTrace
     = Returns None (storeOf (ConsumeTraces noFloat [] sqlOpen testTrace))
   \<and> map spans_status_code (DB_spans (storeOf (ConsumeTraces noFloat [] sqlOpen testTrace)))
       = map (\<lambda>sp. sint (Status_Code (Span_Status sp))) [span1, span2]
   \<and> map spans_kind (DB_spans (storeOf (ConsumeTraces noFloat [] sqlOpen testTrace)))
       = map (\<lambda>sp. SpanKind_String (Span_Kind sp)) [span1, span2]
   \<and> (\<exists>new. DB_spans (storeOf (ConsumeTraces noFloat [] sqlOpen testTrace)) = DB_spans sqlOpen @ new
        \<and> length new = 2)"
proof -
  let ?db = "storeOf (ConsumeTraces noFloat [] sqlOpen testTrace)"
  have r: "ConsumeTraces noFloat [] sqlOpen testTrace = Returns None ?db"
    by (simp add: testTrace_stored storeOf_def)
  have n: "length (DB_spans ?db) = 2"
    by (simp add: testTrace_stored storeOf_def)
  have v: "map spans_status_code (DB_spans ?db)
       = map (\<lambda>sp. sint (Status_Code (Span_Status sp))) [span1, span2]"
    "map spans_kind (DB_spans ?db) = map (\<lambda>sp. SpanKind_String (Span_Kind sp)) [span1, span2]"
    by (simp_all add: testTrace_stored storeOf_def span1_def span2_def StatusCodeOk_def
          SpanKind_String_def)
  from C9_status_and_kind [OF r] obtain new where new: "DB_spans ?db = DB_spans sqlOpen @ new"
    by blast
  with n have "length new = 2" by (simp add: DB_spans_sqlOpen)
  with new have "\<exists>new. DB_spans ?db = DB_spans sqlOpen @ new \<and> length new = 2" by blast
  with r v show ?thesis by blast
qed


text \<open>
  C10: every resource node of a batch that \<open>Spans\<close> returns has the dropped-attributes
  counter 0, and every span row that \<open>ExportSpans\<close> (the normalizer followed by
  \<open>ConsumeTraces\<close>) inserts has 0 in \<open>resource_dropped_attributes_count\<close>.
\<close>

theorem C10_resource_dropped_zero:
  "(Spans F sdl = Inr t \<longrightarrow>
      (\<forall>rs\<in>set t. Resource_DroppedAttributesCount (ResourceSpans_Resource rs) = 0))
   \<and> (ExportSpans F faults db sdl = Returns err db' \<longrightarrow>
        (\<exists>new. DB_spans db' = DB_spans db @ new
           \<and> (\<forall>r\<in>set new. spans_resource_dropped_attributes_count r = 0)))"
proof (intro conjI impI)
  assume "Spans F sdl = Inr t"
  then show "\<forall>rs\<in>set t. Resource_DroppedAttributesCount (ResourceSpans_Resource rs) = 0"
    by (auto dest: Spans_zeroDropped)
next
  assume e: "ExportSpans F faults db sdl = Returns err db'"
  then obtain ss where ss: "Spans F sdl = Inr ss"
    and c: "ConsumeTraces F faults db ss = Returns err db'"
    by (auto simp: ExportSpans_def split: sum.splits)
  have "\<exists>new. DB_spans db' = DB_spans db @ new
           \<and> (\<forall>r\<in>set new. \<exists>resource\<in>set ss.
                 \<exists>scope\<in>set (ResourceSpans_ScopeSpans resource).
                 \<exists>span\<in>set (ScopeSpans_Spans scope).
                   spans_resource_dropped_attributes_count r =
                     uint (Resource_DroppedAttributesCount (ResourceSpans_Resource resource)))"
    by (rule ConsumeTraces_rows [OF c]) (simp add: spanRow_columns)
  then obtain new where new: "DB_spans db' = DB_spans db @ new"
    and rows: "\<forall>r\<in>set new. \<exists>resource\<in>set ss.
                   spans_resource_dropped_attributes_count r =
                     uint (Resource_DroppedAttributesCount (ResourceSpans_Resource resource))"
    by blast
  have "\<forall>r\<in>set new. spans_resource_dropped_attributes_count r = 0"
    using rows Spans_zeroDropped [OF ss] by fastforce
  with new show "\<exists>new. DB_spans db' = DB_spans db @ new
           \<and> (\<forall>r\<in>set new. spans_resource_dropped_attributes_count r = 0)" by blast
qed

lemma exampleSpan_exported:
  "errorOf (ExportSpans noFloat [] sqlOpen [exampleSpan]) = None"
  "map spans_name (DB_spans (storeOf (ExportSpans noFloat [] sqlOpen [exampleSpan]))) = [''span-stub'']"
  "map spans_resource_dropped_attributes_count
     (DB_spans (storeOf (ExportSpans noFloat [] sqlOpen [exampleSpan]))) = [0]"
  "map spans_service_name (DB_spans (storeOf (ExportSpans noFloat [] sqlOpen [exampleSpan])))
     = [''test-service'']"
  "ExportSpans noFloat [] sqlOpen [exampleSpan]
     = Returns None (storeOf (ExportSpans noFloat [] sqlOpen [exampleSpan]))"
  by (simp_all add: ExportSpans_def eval_norm newEvent_def NewTimestampFromTime_def
        TraceState_String_def eval_store eval_rows eval_json)

theorem C10_resource_dropped_zero_witness:
  "(\<exists>t. Spans noFloat [exampleSpan] = Inr t
      \<and> map (\<lambda>rs. Resource_DroppedAttributesCount (ResourceSpans_Resource rs)) t = [0])
   \<and> ExportSpans noFloat [] sqlOpen [exampleSpan]
     = Returns None (storeOf (ExportSpans noFloat [] sqlOpen [exampleSpan]))
   \<and> map spans_resource_dropped_attributes_count
       (DB_spans (storeOf (ExportSpans noFloat [] sqlOpen [exampleSpan]))) = [0]
   \<and> (\<exists>new. DB_spans (storeOf (ExportSpans noFloat [] sqlOpen [exampleSpan])) = DB_spans sqlOpen @ new
        \<and> length new = 1)"
proof -
  let ?db = "storeOf (ExportSpans noFloat [] sqlOpen [exampleSpan])"
  note r = exampleSpan_exported(5)
  have "shapeOf (Spans noFloat [exampleSpan])
          = Inr [([(''service.name'', ValueStr ''test-service'')], [[''span-stub'']])]"
    by (simp add: eval_norm)
  then obtain t where t: "Spans noFloat [exampleSpan] = Inr t" and l: "length t = 1"
    by (cases "Spans noFloat [exampleSpan]") (auto simp: shapeOf_def shape_def)
  note c = C10_resource_dropped_zero [of noFloat "[exampleSpan]" t "[]" sqlOpen None ?db]
  from c t have z: "\<forall>rs\<in>set t. Resource_DroppedAttributesCount (ResourceSpans_Resource rs) = 0"
    by blast
  from l obtain rs where "t = [rs]" by (cases t) auto
  with z have "map (\<lambda>rs. Resource_DroppedAttributesCount (ResourceSpans_Resource rs)) t = [0]"
    by simp
  with t have 1: "\<exists>t. Spans noFloat [exampleSpan] = Inr t
      \<and> map (\<lambda>rs. Resource_DroppedAttributesCount (ResourceSpans_Resource rs)) t = [0]"
    by (intro exI [of _ t] conjI)
  have n: "length (DB_spans ?db) = 1"
    using arg_cong [OF exampleSpan_exported(2), of length] by simp
  from c r obtain new where new: "DB_spans ?db = DB_spans sqlOpen @ new" by blast
  with n have "length new = 1" by (simp add: DB_spans_sqlOpen)
  with new have "\<exists>new. DB_spans ?db = DB_spans sqlOpen @ new \<and> length new = 1" by blast
  with 1 r exampleSpan_exported(3) show ?thesis by (intro conjI)
qed

subsection \<open>The commit on the error paths\<close>

text \<open>
  C1: the code commits on its error paths. A batch that holds the same span twice: the
  second insert fails on the primary key of \<open>spans\<close> and \<open>ConsumeTraces\<close> returns the error,
  yet the row of the first span and its two events are in the store afterwards. The same
  happens when the driver fails the insert of the second span of the test batch.
\<close>

theorem C1_partial_batch_committed:
  "errorOf (ConsumeTraces noFloat [] sqlOpen dupTrace)
     = Some (Errorf ''error occured while inserting span''
               (ConstraintFailed ''UNIQUE constraint failed: spans.span_id, spans.trace_id''))
   \<and> map spans_name (DB_spans (storeOf (ConsumeTraces noFloat [] sqlOpen dupTrace))) = [''span1'']
   \<and> map events_name (DB_events (storeOf (ConsumeTraces noFloat [] sqlOpen dupTrace)))
       = [''this_happened'', ''that_happened'']
   \<and> errorOf (ConsumeTraces noFloat [False, False, False, False, False, False, False, True]
                sqlOpen testTrace)
       = Some (Errorf ''error occured while inserting span'' (DriverError ''exec''))
   \<and> map spans_name
        (DB_spans (storeOf (ConsumeTraces noFloat
           [False, False, False, False, False, False, False, True] sqlOpen testTrace)))
       = [''span1'']
   \<and> map events_name
        (DB_events (storeOf (ConsumeTraces noFloat
           [False, False, False, False, False, False, False, True] sqlOpen testTrace)))
       = [''this_happened'', ''that_happened'']"
  by (simp add: dupTrace_def testTrace_def batchOf_def span1_def span2_def now_def
        eval_store eval_rows eval_json)

text \<open>
  With the one connection that \<open>newSqliteExporter\<close> allows, \<open>e.db.Begin()\<close> can never get
  its connection while the transaction holds the only one.
\<close>

lemma newSqliteExporter_blocks:
  "ConsumeTraces F faults newSqliteExporter traces = Blocks"
  by (simp add: ConsumeTraces_def newSqliteExporter_def pool_exhausted_def take_conn_def)

end
